theory Spec2Isabelle
  imports Main "HOL-Library.Word"
begin

section \<open>JavaScript values used by statusline.ts\<close>

text \<open>
  A JavaScript string is a sequence of UTF-16 code units, and \<open>length\<close>, indexing,
  \<open>substring\<close>, \<open>startsWith\<close> and the regular expressions of the source all count code
  units. A string is therefore a list of 16-bit words; \<open>js\<close> embeds an ASCII literal.
\<close>

type_synonym jschar = "16 word"
type_synonym jsstring = "jschar list"

definition js :: "string \<Rightarrow> jsstring" where
  "js s = map of_char s"

text \<open>
  Template literals \<open>`${n}`\<close> print a number. The numbers printed by the source are
  integers far below \<open>10^21\<close>, which JavaScript prints in plain decimal notation.
\<close>

fun digits :: "nat \<Rightarrow> jsstring" where
  "digits n = (if n < 10 then [of_nat (48 + n)]
               else digits (n div 10) @ [of_nat (48 + n mod 10)])"

definition show_int :: "int \<Rightarrow> jsstring" where
  "show_int i = (if i < 0 then 0x2D # digits (nat (- i)) else digits (nat i))"

text \<open>
  \<open>String.prototype.trim\<close> removes the ECMAScript white space and line terminator code
  units from both ends.
\<close>

definition isWhiteSpace :: "jschar \<Rightarrow> bool" where
  "isWhiteSpace c \<longleftrightarrow>
     c = 0x09 \<or> c = 0x0A \<or> c = 0x0B \<or> c = 0x0C \<or> c = 0x0D \<or> c = 0x20 \<or> c = 0xA0 \<or>
     c = 0x1680 \<or> (0x2000 \<le> c \<and> c \<le> 0x200A) \<or> c = 0x2028 \<or> c = 0x2029 \<or>
     c = 0x202F \<or> c = 0x205F \<or> c = 0x3000 \<or> c = 0xFEFF"

definition trim :: "jsstring \<Rightarrow> jsstring" where
  "trim s = rev (dropWhile isWhiteSpace (rev (dropWhile isWhiteSpace s)))"

text \<open>
  \<open>Math.round(n / 1000)\<close> for an integer \<open>n\<close>: the quotient is rounded to the nearest
  integer, a tie going up. The tie \<open>k + 0.5\<close> is a double, so the floating-point
  quotient lies on the same side of it as the exact one.
\<close>

definition Math_round_div1000 :: "int \<Rightarrow> int" where
  "Math_round_div1000 n = (n + 500) div 1000"

section \<open>Colour tables\<close>

record rgb =
  r :: int
  g :: int
  b :: int

definition basicColors :: "int list list" where
  "basicColors =
    [[0, 0, 0], [128, 0, 0], [0, 128, 0], [128, 128, 0],
     [0, 0, 128], [128, 0, 128], [0, 128, 128], [192, 192, 192],
     [128, 128, 128], [255, 0, 0], [0, 255, 0], [255, 255, 0],
     [0, 0, 255], [255, 0, 255], [0, 255, 255], [255, 255, 255]]"

definition cubeLevels :: "int list" where
  "cubeLevels = [0, 95, 135, 175, 215, 255]"

text \<open>
  \<open>color256ToRgb\<close>: \<open>null\<close> outside \<open>0..255\<close>, the basic table below 16, the
  6 x 6 x 6 cube below 232, the grey ramp above. Every list index is inside its list
  on the branch that reads it.
\<close>

definition color256ToRgb :: "int \<Rightarrow> rgb option" where
  "color256ToRgb index =
    (if index < 0 \<or> index > 255 then None
     else if index < 16 then
       Some \<lparr>r = basicColors ! nat index ! 0,
             g = basicColors ! nat index ! 1,
             b = basicColors ! nat index ! 2\<rparr>
     else if index < 232 then
       (let i = index - 16;
            ri = i div 36;
            gi = (i mod 36) div 6;
            bi = i mod 6
        in Some \<lparr>r = cubeLevels ! nat ri, g = cubeLevels ! nat gi, b = cubeLevels ! nat bi\<rparr>)
     else
       (let gray = 8 + (index - 232) * 10
        in Some \<lparr>r = gray, g = gray, b = gray\<rparr>))"

section \<open>Token accounting\<close>

text \<open>
  The transcript is newline-delimited JSON. \<open>JSON.parse\<close> is a built-in of the language and
  is a parameter of the model: it maps a line to \<open>None\<close> where it throws and to the
  parsed record otherwise. Of a record the source reads \<open>type\<close>, \<open>message.model\<close> and
  the four counters of \<open>message.usage\<close>; a field that is absent (\<open>undefined\<close>) is
  \<open>None\<close>. The counters are integers, as the transcript format has them. A line that
  parses to \<open>null\<close> makes the property access throw inside the same \<open>try\<close> and so
  behaves as a line that does not parse; a line that parses to any other non-object
  behaves as a record without fields.
\<close>

record Usage =
  input_tokens :: "int option"
  output_tokens :: "int option"
  cache_creation_input_tokens :: "int option"
  cache_read_input_tokens :: "int option"

record Message =
  model :: "jsstring option"
  usage :: "Usage option"

record TranscriptRecord =
  rtype :: "jsstring option"
  message :: "Message option"

type_synonym json_parse = "jsstring \<Rightarrow> TranscriptRecord option"

record TokenStats =
  totalUsed :: int
  totalRemaining :: int
  maxTokensFormatted :: jsstring

text \<open>\<open>x || 0\<close> on an optional number: \<open>undefined\<close> and \<open>0\<close> both give \<open>0\<close>.\<close>

definition or0 :: "int option \<Rightarrow> int" where
  "or0 x = (case x of None \<Rightarrow> 0 | Some n \<Rightarrow> n)"

text \<open>\<open>message.message && message.message.usage\<close>: the usage object, when both exist.\<close>

definition usageOf :: "TranscriptRecord \<Rightarrow> Usage option" where
  "usageOf m = (case message m of None \<Rightarrow> None | Some mm \<Rightarrow> usage mm)"

record Totals =
  totalInputTokens :: int
  totalOutputTokens :: int
  totalCacheCreationTokens :: int
  totalCacheReadTokens :: int

text \<open>One iteration of the first loop of \<open>calculateTotalTokens\<close>.\<close>

definition addLine :: "json_parse \<Rightarrow> Totals \<Rightarrow> jsstring \<Rightarrow> Totals" where
  "addLine parse t line =
    (if trim line \<noteq> [] then
       (case parse line of
          None \<Rightarrow> t
        | Some m \<Rightarrow>
            (case usageOf m of
               None \<Rightarrow> t
             | Some u \<Rightarrow>
                 \<lparr>totalInputTokens = totalInputTokens t + or0 (input_tokens u),
                  totalOutputTokens = totalOutputTokens t + or0 (output_tokens u),
                  totalCacheCreationTokens =
                    totalCacheCreationTokens t + or0 (cache_creation_input_tokens u),
                  totalCacheReadTokens =
                    totalCacheReadTokens t + or0 (cache_read_input_tokens u)\<rparr>))
     else t)"

fun sumLines :: "json_parse \<Rightarrow> Totals \<Rightarrow> jsstring list \<Rightarrow> Totals" where
  "sumLines parse t [] = t"
| "sumLines parse t (line # lines) = sumLines parse (addLine parse t line) lines"

text \<open>
  The usage object of the last line, \<open>lines[lines.length - 1]\<close>: no trim test here, and
  a parse error leaves the four \<open>last...\<close> variables at 0.
\<close>

definition lastUsage :: "json_parse \<Rightarrow> jsstring list \<Rightarrow> Usage option" where
  "lastUsage parse lines =
    (if length lines > 0 then
       (case parse (lines ! (length lines - 1)) of
          None \<Rightarrow> None
        | Some lastMessage \<Rightarrow> usageOf lastMessage)
     else None)"

definition calculateTotalTokens :: "json_parse \<Rightarrow> jsstring list \<Rightarrow> TokenStats" where
  "calculateTotalTokens parse lines =
    (let t = sumLines parse
               \<lparr>totalInputTokens = 0, totalOutputTokens = 0,
                totalCacheCreationTokens = 0, totalCacheReadTokens = 0\<rparr> lines;
         lu = lastUsage parse lines;
         lastMessageCacheRead = (case lu of None \<Rightarrow> 0 | Some u \<Rightarrow> or0 (cache_read_input_tokens u));
         lastInputTokens = (case lu of None \<Rightarrow> 0 | Some u \<Rightarrow> or0 (input_tokens u));
         lastOutputTokens = (case lu of None \<Rightarrow> 0 | Some u \<Rightarrow> or0 (output_tokens u));
         lastCacheCreationTokens =
           (case lu of None \<Rightarrow> 0 | Some u \<Rightarrow> or0 (cache_creation_input_tokens u));
         totalUsed =
           (if lastMessageCacheRead > 0 then
              (let adjustment = lastInputTokens + lastOutputTokens + lastCacheCreationTokens;
                   used = lastMessageCacheRead + adjustment
               in if used > 200000 then 200000 else used)
            else
              (let used = totalInputTokens t + totalOutputTokens t
               in if used = 0 then 138000 else used));
         maxTokens = 200000
     in \<lparr>totalUsed = totalUsed,
         totalRemaining = max 0 (maxTokens - totalUsed),
         maxTokensFormatted = show_int (Math_round_div1000 maxTokens) @ js ''k''\<rparr>)"

text \<open>Inputs used to evaluate the token accounting, and the side condition of its bounds.\<close>

definition cachedTurn :: TranscriptRecord where
  "cachedTurn = \<lparr>rtype = Some (js ''assistant''),
     message = Some \<lparr>model = Some (js ''claude''),
       usage = Some \<lparr>input_tokens = Some 5000, output_tokens = Some 3000,
                     cache_creation_input_tokens = Some 1000,
                     cache_read_input_tokens = Some 190000\<rparr>\<rparr>\<rparr>"

definition fallbackTurn :: TranscriptRecord where
  "fallbackTurn = \<lparr>rtype = Some (js ''assistant''),
     message = Some \<lparr>model = Some (js ''claude''),
       usage = Some \<lparr>input_tokens = Some 100000, output_tokens = Some 0,
                     cache_creation_input_tokens = None,
                     cache_read_input_tokens = None\<rparr>\<rparr>\<rparr>"

definition fallbackParse :: json_parse where
  "fallbackParse = map_of [(js ''turn1'', fallbackTurn), (js ''turn2'', fallbackTurn),
                           (js ''turn3'', fallbackTurn)]"

definition nonnegUsage :: "Usage \<Rightarrow> bool" where
  "nonnegUsage u \<longleftrightarrow> 0 \<le> or0 (input_tokens u) \<and> 0 \<le> or0 (output_tokens u)
     \<and> 0 \<le> or0 (cache_creation_input_tokens u) \<and> 0 \<le> or0 (cache_read_input_tokens u)"

definition nonnegLine :: "json_parse \<Rightarrow> jsstring \<Rightarrow> bool" where
  "nonnegLine parse line =
     (case parse line of None \<Rightarrow> True
      | Some m \<Rightarrow> (case usageOf m of None \<Rightarrow> True | Some u \<Rightarrow> nonnegUsage u))"

section \<open>Hexadecimal colours\<close>

text \<open>
  \<open>parseInt(s, 16)\<close> as ECMAScript defines it: leading white space is dropped, then an
  optional sign, then an optional \<open>0x\<close> or \<open>0X\<close>; the longest run of hexadecimal digits that
  follows is the value, and anything after it is ignored. With no digit the result is
  \<open>NaN\<close>, here \<open>None\<close>. (\<open>-0\<close> is \<open>0\<close>: it fails \<open>r < 0\<close> and prints as \<open>0\<close>.)
\<close>

definition isHexDigit :: "jschar \<Rightarrow> bool" where
  "isHexDigit c \<longleftrightarrow> (0x30 \<le> c \<and> c \<le> 0x39) \<or> (0x61 \<le> c \<and> c \<le> 0x66) \<or> (0x41 \<le> c \<and> c \<le> 0x46)"

definition hexDigitValue :: "jschar \<Rightarrow> int" where
  "hexDigitValue c =
    (if 0x30 \<le> c \<and> c \<le> 0x39 then uint c - 0x30
     else if 0x61 \<le> c \<and> c \<le> 0x66 then uint c - 0x61 + 10
     else uint c - 0x41 + 10)"

definition hexValue :: "jsstring \<Rightarrow> int" where
  "hexValue ds = foldl (\<lambda>acc d. acc * 16 + hexDigitValue d) 0 ds"

definition parseInt16 :: "jsstring \<Rightarrow> int option" where
  "parseInt16 inputString =
    (let s = dropWhile isWhiteSpace inputString;
         sign = (if s \<noteq> [] \<and> hd s = 0x2D then - 1 else 1);
         s1 = (if s \<noteq> [] \<and> (hd s = 0x2B \<or> hd s = 0x2D) then tl s else s);
         s2 = (if length s1 \<ge> 2 \<and> hd s1 = 0x30 \<and> (s1 ! 1 = 0x78 \<or> s1 ! 1 = 0x58)
               then drop 2 s1 else s1);
         z = takeWhile isHexDigit s2
     in if z = [] then None else Some (sign * hexValue z))"

text \<open>\<open>s.substring(i, j)\<close> for \<open>0 \<le> i \<le> j\<close>; positions past the end are clamped.\<close>

definition substring :: "jsstring \<Rightarrow> nat \<Rightarrow> nat \<Rightarrow> jsstring" where
  "substring s i j = take (j - i) (drop i s)"

definition startsWith :: "jsstring \<Rightarrow> jsstring \<Rightarrow> bool" where
  "startsWith s p \<longleftrightarrow> take (length p) s = p"

definition hexToRgb :: "jsstring \<Rightarrow> rgb option" where
  "hexToRgb hex0 =
    (let hex1 = trim (if startsWith hex0 (js ''#'') then drop 1 hex0 else hex0);
         hex = (if length hex1 = 3
                then [hex1 ! 0, hex1 ! 0, hex1 ! 1, hex1 ! 1, hex1 ! 2, hex1 ! 2]
                else hex1)
     in if length hex \<noteq> 6 then None
        else
          (case (parseInt16 (substring hex 0 2), parseInt16 (substring hex 2 4),
                 parseInt16 (substring hex 4 6)) of
             (Some rv, Some gv, Some bv) \<Rightarrow>
               if rv < 0 \<or> rv > 255 \<or> gv < 0 \<or> gv > 255 \<or> bv < 0 \<or> bv > 255 then None
               else Some \<lparr>r = rv, g = gv, b = bv\<rparr>
           | _ \<Rightarrow> None))"

text \<open>The tests \<open>/^[0-9a-fA-F]{6}$/\<close> and \<open>/^[0-9a-fA-F]{3}$/\<close>.\<close>

definition isHex6 :: "jsstring \<Rightarrow> bool" where
  "isHex6 s \<longleftrightarrow> length s = 6 \<and> list_all isHexDigit s"

definition isHex3 :: "jsstring \<Rightarrow> bool" where
  "isHex3 s \<longleftrightarrow> length s = 3 \<and> list_all isHexDigit s"

text \<open>
  The tables \<open>COLORS\<close> and \<open>COLOR_MAP\<close> are object literals, read by \<open>TABLE[name]\<close>. The
  model has their own keys; the member names every object inherits (\<open>constructor\<close>,
  \<open>toString\<close> and the like) are not colour names and are kept out by a hypothesis
  (\<open>ownColourNames\<close> below) where a statement depends on them.
\<close>

definition ESC :: jschar where
  "ESC = 0x1B"

definition COLORS :: "(jsstring \<times> jsstring) list" where
  "COLORS =
    [(js ''reset'', ESC # js ''[0m''),
     (js ''bold'', ESC # js ''[1m''),
     (js ''dim'', ESC # js ''[2m''),
     (js ''black'', ESC # js ''[30m''),
     (js ''red'', ESC # js ''[31m''),
     (js ''green'', ESC # js ''[32m''),
     (js ''yellow'', ESC # js ''[33m''),
     (js ''blue'', ESC # js ''[34m''),
     (js ''magenta'', ESC # js ''[35m''),
     (js ''cyan'', ESC # js ''[36m''),
     (js ''white'', ESC # js ''[37m''),
     (js ''bright_black'', ESC # js ''[90m''),
     (js ''bright_red'', ESC # js ''[91m''),
     (js ''bright_green'', ESC # js ''[92m''),
     (js ''bright_yellow'', ESC # js ''[93m''),
     (js ''bright_blue'', ESC # js ''[94m''),
     (js ''bright_magenta'', ESC # js ''[95m''),
     (js ''bright_cyan'', ESC # js ''[96m''),
     (js ''bright_white'', ESC # js ''[97m''),
     (js ''bg_black'', ESC # js ''[40m''),
     (js ''bg_red'', ESC # js ''[41m''),
     (js ''bg_green'', ESC # js ''[42m''),
     (js ''bg_yellow'', ESC # js ''[43m''),
     (js ''bg_blue'', ESC # js ''[44m''),
     (js ''bg_magenta'', ESC # js ''[45m''),
     (js ''bg_cyan'', ESC # js ''[46m''),
     (js ''bg_white'', ESC # js ''[47m''),
     (js ''bg_bright_black'', ESC # js ''[100m''),
     (js ''bg_bright_red'', ESC # js ''[101m''),
     (js ''bg_bright_green'', ESC # js ''[102m''),
     (js ''bg_bright_yellow'', ESC # js ''[103m''),
     (js ''bg_bright_blue'', ESC # js ''[104m''),
     (js ''bg_bright_magenta'', ESC # js ''[105m''),
     (js ''bg_bright_cyan'', ESC # js ''[106m''),
     (js ''bg_bright_white'', ESC # js ''[107m'')]"

definition TRUE_COLOR_PREFIX :: jsstring where
  "TRUE_COLOR_PREFIX = ESC # js ''[38;2;''"

definition TRUE_COLOR_BG_PREFIX :: jsstring where
  "TRUE_COLOR_BG_PREFIX = ESC # js ''[48;2;''"

definition getColorCode :: "jsstring \<Rightarrow> jsstring" where
  "getColorCode colorName =
    (case (if startsWith colorName (js ''#'') \<or> isHex6 colorName \<or> isHex3 colorName
           then hexToRgb colorName else None) of
       Some c \<Rightarrow> TRUE_COLOR_PREFIX @ show_int (r c) @ js '';'' @ show_int (g c) @ js '';''
                 @ show_int (b c) @ js ''m''
     | None \<Rightarrow>
        (case map_of COLORS colorName of
           Some code \<Rightarrow> code
         | None \<Rightarrow> []))"

definition COLOR_MAP :: "(jsstring \<times> int) list" where
  "COLOR_MAP =
    [(js ''black'', 0), (js ''red'', 1), (js ''green'', 2), (js ''yellow'', 3),
     (js ''blue'', 4), (js ''magenta'', 5), (js ''cyan'', 6), (js ''white'', 7),
     (js ''bright_black'', 8), (js ''bright_red'', 9), (js ''bright_green'', 10),
     (js ''bright_yellow'', 11), (js ''bright_blue'', 12), (js ''bright_magenta'', 13),
     (js ''bright_cyan'', 14), (js ''bright_white'', 15),
     (js ''bg_black'', 0), (js ''bg_red'', 1), (js ''bg_green'', 2), (js ''bg_yellow'', 3),
     (js ''bg_blue'', 4), (js ''bg_magenta'', 5), (js ''bg_cyan'', 6), (js ''bg_white'', 7),
     (js ''bg_bright_black'', 8), (js ''bg_bright_red'', 9), (js ''bg_bright_green'', 10),
     (js ''bg_bright_yellow'', 11), (js ''bg_bright_blue'', 12),
     (js ''bg_bright_magenta'', 13), (js ''bg_bright_cyan'', 14),
     (js ''bg_bright_white'', 15),
     (js ''bg_bright_orange'', 202), (js ''bg_bright_purple'', 129)]"

definition getTrueColorRgb :: "jsstring \<Rightarrow> rgb option" where
  "getTrueColorRgb colorName =
    (case map_of COLOR_MAP colorName of
       Some color256 \<Rightarrow> color256ToRgb color256
     | None \<Rightarrow>
        if startsWith colorName (js ''#'') \<or> isHex6 colorName \<or> isHex3 colorName
        then hexToRgb colorName
        else if startsWith colorName (js ''bg_#'') then hexToRgb (drop 3 colorName)
        else None)"

section \<open>Outcomes of effectful steps\<close>

text \<open>
  A step of the asynchronous code returns a value, throws (or rejects the promise it
  returned), or never settles. Only a user script can fail to settle: the source sets no
  time limit on it. The handlers of the source ignore the value thrown, so the error
  only records its kind.
\<close>

datatype error = TypeError | IOError | ScriptError

datatype 'a outcome = Returns 'a | Throws error | Diverges

definition bind :: "'a outcome \<Rightarrow> ('a \<Rightarrow> 'b outcome) \<Rightarrow> 'b outcome" where
  "bind x f = (case x of Returns v \<Rightarrow> f v | Throws e \<Rightarrow> Throws e | Diverges \<Rightarrow> Diverges)"

text \<open>\<open>try { body } catch { handler }\<close>.\<close>

definition tryCatch :: "'a outcome \<Rightarrow> 'a outcome \<Rightarrow> 'a outcome" where
  "tryCatch body handler = (case body of Throws e \<Rightarrow> handler | other \<Rightarrow> other)"

section \<open>Template substitution\<close>

text \<open>
  The variable map is an object whose values are strings or \<open>undefined\<close>;
  \<open>variables[varName] || ""\<close> reads it.
\<close>

type_synonym variables = "jsstring \<Rightarrow> jsstring option"

definition orEmpty :: "jsstring option \<Rightarrow> jsstring" where
  "orEmpty x = (case x of None \<Rightarrow> [] | Some v \<Rightarrow> v)"

text \<open>The class \<open>\w\<close>: ASCII letters, digits and the underscore.\<close>

definition isWordChar :: "jschar \<Rightarrow> bool" where
  "isWordChar c \<longleftrightarrow> (0x30 \<le> c \<and> c \<le> 0x39) \<or> (0x41 \<le> c \<and> c \<le> 0x5A)
                    \<or> (0x61 \<le> c \<and> c \<le> 0x7A) \<or> c = 0x5F"

text \<open>
  A match of \<open>/\{\{(\w+)\}\}/\<close> at the start of \<open>s\<close>: the captured name and the text after
  the match. The greedy \<open>\w+\<close> takes the whole run of word characters; a shorter run
  would leave a word character where \<open>}}\<close> has to follow, so backtracking finds nothing.
\<close>

definition matchVariable :: "jsstring \<Rightarrow> (jsstring \<times> jsstring) option" where
  "matchVariable s =
    (if startsWith s (js ''{{'') then
       (let varName = takeWhile isWordChar (drop 2 s);
            rest = dropWhile isWordChar (drop 2 s)
        in if varName \<noteq> [] \<and> startsWith rest (js ''}}'')
           then Some (varName, drop 2 rest) else None)
     else None)"

lemma matchVariable_shorter:
  "matchVariable s = Some (varName, rest) \<Longrightarrow> length rest < length s"
proof -
  assume m: "matchVariable s = Some (varName, rest)"
  then have st: "startsWith s (js ''{{'')"
    by (auto simp: matchVariable_def split: if_splits)
  then have "length s \<ge> 2"
    by (auto simp: startsWith_def js_def) (metis length_take min.cobounded1 length_Cons list.size(3) One_nat_def Suc_1)
  moreover from m have "rest = drop 2 (dropWhile isWordChar (drop 2 s))"
    by (auto simp: matchVariable_def Let_def split: if_splits)
  moreover have "length (dropWhile isWordChar (drop 2 s)) \<le> length (drop 2 s)"
    by (rule length_dropWhile_le)
  ultimately show ?thesis by simp
qed

text \<open>
  \<open>text.replace(/\{\{(\w+)\}\}/g, ...)\<close>: the text is scanned from the left; a match is
  replaced and the scan goes on after it, any other code unit is copied.
\<close>

function replaceVariables :: "jsstring \<Rightarrow> variables \<Rightarrow> jsstring" where
  "replaceVariables s variables =
    (if s = [] then []
     else (case matchVariable s of
             Some (varName, rest) \<Rightarrow> orEmpty (variables varName) @ replaceVariables rest variables
           | None \<Rightarrow> hd s # replaceVariables (tl s) variables))"
  by pat_completeness auto
termination
  by (relation "measure (\<lambda>(s, variables). length s)") (auto simp: matchVariable_shorter)

declare replaceVariables.simps [simp del]

section \<open>Themes and script modules\<close>

text \<open>
  A module comes from the configuration file, which is not validated: each field is a
  string when present and \<open>None\<close> when absent.
\<close>

record StatusLineModuleConfig =
  type :: "jsstring option"
  icon :: "jsstring option"
  "text" :: "jsstring option"
  color :: "jsstring option"
  background :: "jsstring option"
  scriptPath :: "jsstring option"

record StatusLineThemeConfig =
  modules :: "StatusLineModuleConfig list option"

text \<open>
  What \<open>require(scriptPath)\<close> gives: the exported value is a function, a string, an object
  (of which only \<open>default\<close> is read) or \<open>null\<close>/\<open>undefined\<close>. A call of an exported
  function returns a string or a promise of one, throws, or does not return; a promise
  resolves, rejects or stays pending. A script is taken as a function of its argument.
  The \<open>catch\<close> of \<open>executeScript\<close> also writes to \<open>console.error\<close>; the error channel
  is not part of the model.
\<close>

datatype ScriptResult = Plain jsstring | PromiseOf "jsstring outcome"

type_synonym ScriptFunction = "variables \<Rightarrow> ScriptResult outcome"

datatype DefaultExport = DefaultFunction ScriptFunction | DefaultString jsstring | DefaultOther

datatype ScriptModule =
    ModuleFunction ScriptFunction
  | ModuleString jsstring
  | ModuleObject "DefaultExport option"
  | ModuleNullish

text \<open>
  The configuration file, as the source reads it: \<open>StatusLine.currentStyle\<close>, the theme
  \<open>StatusLine[style]\<close> of a style name, and \<open>Router.default\<close>. A document that is not an
  object makes the first property access throw inside the \<open>try\<close> that also holds the
  parse, so it behaves as a document that does not parse.
\<close>

record RouterConfig =
  routerDefault :: "jsstring option"

record StatusLineConfig =
  currentStyle :: "jsstring option"
  styles :: "jsstring \<Rightarrow> StatusLineThemeConfig option"

record Config =
  StatusLine :: "StatusLineConfig option"
  Router :: "RouterConfig option"

text \<open>
  Everything outside the module that it reads: the environment (\<open>process.env\<close>),
  the file system (\<open>fs.access\<close>: does it resolve; \<open>fs.readFile\<close>: the content, \<open>None\<close> when
  it rejects), the parsers (\<open>None\<close> when they throw), \<open>execSync("git branch
  --show-current", {cwd})\<close> (\<open>None\<close> when it throws), \<open>require\<close>, \<open>path.join\<close>, the
  constant \<open>CONFIG_FILE\<close> of \<open>../constants\<close>, and \<open>(n / 1000).toFixed(1)\<close>, whose digits
  depend on the floating-point quotient.
\<close>

record World =
  env :: "jsstring \<Rightarrow> jsstring option"
  fs_access :: "jsstring \<Rightarrow> bool"
  fs_readFile :: "jsstring \<Rightarrow> jsstring option"
  JSON5_parse :: "jsstring \<Rightarrow> Config option"
  JSON_parse :: json_parse
  execSync_git :: "jsstring option \<Rightarrow> jsstring option"
  require :: "jsstring \<Rightarrow> ScriptModule outcome"
  path_join :: "jsstring list \<Rightarrow> jsstring"
  CONFIG_FILE :: jsstring
  toFixed1 :: "int \<Rightarrow> jsstring"

text \<open>\<open>const result = f(variables); if (result instanceof Promise) return await result; return result\<close>.\<close>

definition callScript :: "ScriptFunction \<Rightarrow> variables \<Rightarrow> jsstring outcome" where
  "callScript f variables =
    bind (f variables) (\<lambda>result. case result of PromiseOf p \<Rightarrow> p | Plain v \<Rightarrow> Returns v)"

definition executeScript :: "World \<Rightarrow> jsstring \<Rightarrow> variables \<Rightarrow> jsstring outcome" where
  "executeScript world path variables =
    tryCatch
      (bind (if fs_access world path then Returns () else Throws IOError) (\<lambda>_.
       bind (require world path) (\<lambda>scriptModule.
         case scriptModule of
           ModuleFunction f \<Rightarrow> callScript f variables
         | ModuleNullish \<Rightarrow> Throws TypeError
         | ModuleObject (Some (DefaultFunction f)) \<Rightarrow> callScript f variables
         | ModuleString str \<Rightarrow> Returns str
         | ModuleObject (Some (DefaultString str)) \<Rightarrow> Returns str
         | ModuleObject _ \<Rightarrow> Returns [])))
      (Returns [])"

definition DEFAULT_THEME :: StatusLineThemeConfig where
  "DEFAULT_THEME = \<lparr>modules = Some
    [\<lparr>type = Some (js ''workDir''), icon = Some [0xDB80, 0xDE4B],
      text = Some (js ''{{workDirName}}''), color = Some (js ''bright_blue''),
      background = None, scriptPath = None\<rparr>,
     \<lparr>type = Some (js ''gitBranch''), icon = Some [0xE725],
      text = Some (js ''{{gitBranch}}''), color = Some (js ''bright_magenta''),
      background = None, scriptPath = None\<rparr>,
     \<lparr>type = Some (js ''model''), icon = Some [0xDB81, 0xDEA9],
      text = Some (js ''{{model}}''), color = Some (js ''bright_cyan''),
      background = None, scriptPath = None\<rparr>,
     \<lparr>type = Some (js ''usage''), icon = Some [0x2191],
      text = Some (js ''{{inputTokens}}''), color = Some (js ''bright_green''),
      background = None, scriptPath = None\<rparr>,
     \<lparr>type = Some (js ''usage''), icon = Some [0x2193],
      text = Some (js ''{{outputTokens}}''), color = Some (js ''bright_yellow''),
      background = None, scriptPath = None\<rparr>]\<rparr>"

definition POWERLINE_THEME :: StatusLineThemeConfig where
  "POWERLINE_THEME = \<lparr>modules = Some
    [\<lparr>type = Some (js ''workDir''), icon = Some [0xDB80, 0xDE4B],
      text = Some (js ''{{workDirName}}''), color = Some (js ''white''),
      background = Some (js ''bg_bright_blue''), scriptPath = None\<rparr>,
     \<lparr>type = Some (js ''gitBranch''), icon = Some [0xE725],
      text = Some (js ''{{gitBranch}}''), color = Some (js ''white''),
      background = Some (js ''bg_bright_magenta''), scriptPath = None\<rparr>,
     \<lparr>type = Some (js ''model''), icon = Some [0xDB81, 0xDEA9],
      text = Some (js ''{{model}}''), color = Some (js ''white''),
      background = Some (js ''bg_bright_cyan''), scriptPath = None\<rparr>,
     \<lparr>type = Some (js ''usage''), icon = Some [0x2191],
      text = Some (js ''{{inputTokens}}''), color = Some (js ''white''),
      background = Some (js ''bg_bright_green''), scriptPath = None\<rparr>,
     \<lparr>type = Some (js ''usage''), icon = Some [0x2193],
      text = Some (js ''{{outputTokens}}''), color = Some (js ''white''),
      background = Some (js ''bg_bright_yellow''), scriptPath = None\<rparr>]\<rparr>"

definition SIMPLE_THEME :: StatusLineThemeConfig where
  "SIMPLE_THEME = \<lparr>modules = Some
    [\<lparr>type = Some (js ''model''), icon = Some [],
      text = Some (js ''{{model}}''), color = Some (js ''bright_cyan''),
      background = None, scriptPath = None\<rparr>,
     \<lparr>type = Some (js ''workDir''), icon = Some [],
      text = Some (js ''{{workDirName}}''), color = Some (js ''bright_blue''),
      background = None, scriptPath = None\<rparr>,
     \<lparr>type = Some (js ''totalTokens''), icon = Some (js ''Tokens:''),
      text = Some (js ''{{totalTokens}}''), color = Some (js ''bright_white''),
      background = None, scriptPath = None\<rparr>,
     \<lparr>type = Some (js ''usage''), icon = Some [0x2191],
      text = Some (js ''{{inputTokens}}''), color = Some (js ''bright_green''),
      background = None, scriptPath = None\<rparr>,
     \<lparr>type = Some (js ''usage''), icon = Some [0x2192],
      text = Some (js ''{{outputTokens}}''), color = Some (js ''bright_yellow''),
      background = None, scriptPath = None\<rparr>]\<rparr>"

section \<open>Default style\<close>

text \<open>A string option as a condition: \<open>undefined\<close> and \<open>""\<close> are falsy.\<close>

definition truthy :: "jsstring option \<Rightarrow> bool" where
  "truthy x \<longleftrightarrow> (case x of None \<Rightarrow> False | Some v \<Rightarrow> v \<noteq> [])"

text \<open>
  The text of a module, as both renderers acquire it: the script when the type is
  \<open>script\<close> and \<open>scriptPath\<close> is truthy, the template otherwise. \<open>text.replace\<close> on an
  absent \<open>text\<close> throws a \<open>TypeError\<close>.
\<close>

definition moduleText ::
  "World \<Rightarrow> StatusLineModuleConfig \<Rightarrow> variables \<Rightarrow> jsstring outcome" where
  "moduleText world module variables =
    (if type module = Some (js ''script'') \<and> truthy (scriptPath module)
     then executeScript world (orEmpty (scriptPath module)) variables
     else (case text module of
             None \<Rightarrow> Throws TypeError
           | Some t \<Rightarrow> Returns (replaceVariables t variables)))"

text \<open>
  \<open>displayText\<close>: the icon and a space when the icon is truthy, then the text.
\<close>

definition displayTextOf :: "StatusLineModuleConfig \<Rightarrow> jsstring \<Rightarrow> jsstring" where
  "displayTextOf module txt =
    (let icon = orEmpty (icon module)
     in (if icon \<noteq> [] then icon @ js '' '' else []) @ txt)"

definition reset :: jsstring where
  "reset = ESC # js ''[0m''"

text \<open>
  One iteration of the loop of \<open>renderDefaultStyle\<close>: \<open>None\<close> where the iteration ends
  in \<open>continue\<close>, the string pushed on \<open>parts\<close> otherwise.
\<close>

definition defaultPart ::
  "World \<Rightarrow> variables \<Rightarrow> StatusLineModuleConfig \<Rightarrow> jsstring option outcome" where
  "defaultPart world variables module =
    (let colorCode = (if truthy (color module) then getColorCode (orEmpty (color module)) else []);
         backgroundCode =
           (if truthy (background module) then getColorCode (orEmpty (background module)) else [])
     in bind (moduleText world module variables) (\<lambda>txt.
          let displayText = displayTextOf module txt
          in if displayText = [] \<or> txt = [] then Returns None
             else Returns (Some (backgroundCode @ colorCode @ displayText @ reset))))"

text \<open>The loop over \<open>modules[0]\<close>, ..., \<open>modules[Math.min(modules.length, 5) - 1]\<close>.\<close>

fun defaultParts ::
  "World \<Rightarrow> variables \<Rightarrow> StatusLineModuleConfig list \<Rightarrow> jsstring list outcome" where
  "defaultParts world variables [] = Returns []"
| "defaultParts world variables (module # rest) =
    bind (defaultPart world variables module) (\<lambda>part.
    bind (defaultParts world variables rest) (\<lambda>parts.
      Returns (case part of None \<Rightarrow> parts | Some p \<Rightarrow> p # parts)))"

text \<open>\<open>parts.join(sep)\<close>.\<close>

fun join :: "jsstring \<Rightarrow> jsstring list \<Rightarrow> jsstring" where
  "join sep [] = []"
| "join sep [p] = p"
| "join sep (p # q # ps) = p @ sep @ join sep (q # ps)"

definition renderDefaultStyle ::
  "World \<Rightarrow> StatusLineThemeConfig \<Rightarrow> variables \<Rightarrow> jsstring outcome" where
  "renderDefaultStyle world theme variables =
    (let mods = (case modules theme of Some ms \<Rightarrow> ms | None \<Rightarrow> the (modules DEFAULT_THEME))
     in bind (defaultParts world variables (take (min (length mods) 5) mods)) (\<lambda>parts.
          Returns (join (js '' '') parts)))"

section \<open>Powerline style\<close>

definition SEP_RIGHT :: jsstring where
  "SEP_RIGHT = [0xE0B0]"

text \<open>The escape sequences \<open>\x1b[48;2;R;G;Bm\<close> (background) and \<open>\x1b[38;2;R;G;Bm\<close>.\<close>

definition bgEscape :: "rgb \<Rightarrow> jsstring" where
  "bgEscape c = ESC # js ''[48;2;'' @ show_int (r c) @ js '';'' @ show_int (g c) @ js '';''
                @ show_int (b c) @ js ''m''"

definition fgEscape :: "rgb \<Rightarrow> jsstring" where
  "fgEscape c = ESC # js ''[38;2;'' @ show_int (r c) @ js '';'' @ show_int (g c) @ js '';''
                @ show_int (b c) @ js ''m''"

definition segment :: "jsstring \<Rightarrow> jsstring \<Rightarrow> jsstring \<Rightarrow> jsstring option \<Rightarrow> jsstring" where
  "segment txt textFg bgColor nextBgColor =
    (case getTrueColorRgb bgColor of
       None \<Rightarrow>
         (let defaultBlueRgb = \<lparr>r = 33, g = 150, b = 243\<rparr>;
              curBg = bgEscape defaultBlueRgb;
              fgColor = fgEscape \<lparr>r = 255, g = 255, b = 255\<rparr>;
              body = curBg @ fgColor @ js '' '' @ txt @ js '' '' @ reset
          in body)
     | Some bgRgb \<Rightarrow>
         (let curBg = bgEscape bgRgb;
              fgRgb = (case getTrueColorRgb textFg of
                         Some textFgRgb \<Rightarrow> textFgRgb
                       | None \<Rightarrow> \<lparr>r = 255, g = 255, b = 255\<rparr>);
              fgColor = fgEscape fgRgb;
              body = curBg @ fgColor @ js '' '' @ txt @ js '' '' @ reset
          in (case nextBgColor of
                Some next \<Rightarrow>
                  (case getTrueColorRgb next of
                     Some nextBgRgb \<Rightarrow>
                       body @ fgEscape bgRgb @ bgEscape nextBgRgb @ SEP_RIGHT @ reset
                   | None \<Rightarrow>
                       body @ fgEscape bgRgb @ bgEscape \<lparr>r = 0, g = 0, b = 0\<rparr> @ SEP_RIGHT @ reset)
              | None \<Rightarrow> body)))"

text \<open>
  \<open>nextBackground\<close> at index \<open>i\<close>: \<open>modules[i + 1].background || null\<close> when
  \<open>i < modules.length - 1\<close>, \<open>null\<close> otherwise. The bound is the length of the whole
  list, not of the five modules the loop visits.
\<close>

definition nextBackgroundAt :: "StatusLineModuleConfig list \<Rightarrow> nat \<Rightarrow> jsstring option" where
  "nextBackgroundAt mods i =
    (if i < length mods - 1 then
       (let nextModule = mods ! (i + 1)
        in if truthy (background nextModule) then background nextModule else None)
     else None)"

text \<open>\<open>module.color || "white"\<close> and \<open>(module.background || "") || "bg_bright_blue"\<close>.\<close>

definition colorNameOf :: "StatusLineModuleConfig \<Rightarrow> jsstring" where
  "colorNameOf module = (if truthy (color module) then orEmpty (color module) else js ''white'')"

definition actualBackgroundOf :: "StatusLineModuleConfig \<Rightarrow> jsstring" where
  "actualBackgroundOf module =
    (let backgroundName = orEmpty (background module)
     in if backgroundName \<noteq> [] then backgroundName else js ''bg_bright_blue'')"

text \<open>The loop of \<open>renderPowerlineStyle\<close> from index \<open>i\<close> on: the strings pushed on \<open>segments\<close>.\<close>

function powerlineSegments ::
  "World \<Rightarrow> variables \<Rightarrow> StatusLineModuleConfig list \<Rightarrow> nat \<Rightarrow> jsstring list outcome"
where
  "powerlineSegments world variables mods i =
    (if i < min (length mods) 5 then
       (let module = mods ! i
        in bind (moduleText world module variables) (\<lambda>txt.
             let displayText = displayTextOf module txt
             in if displayText = [] \<or> txt = []
                then powerlineSegments world variables mods (Suc i)
                else
                  (let nextBackground = nextBackgroundAt mods i;
                       segmentStr = segment displayText (colorNameOf module)
                                      (actualBackgroundOf module) nextBackground
                   in bind (powerlineSegments world variables mods (Suc i)) (\<lambda>segments.
                        Returns (segmentStr # segments)))))
     else Returns [])"
  by pat_completeness auto
termination
  by (relation "measure (\<lambda>(world, variables, mods, i). 5 - i)") auto

declare powerlineSegments.simps [simp del]

definition renderPowerlineStyle ::
  "World \<Rightarrow> StatusLineThemeConfig \<Rightarrow> variables \<Rightarrow> jsstring outcome" where
  "renderPowerlineStyle world theme variables =
    (let mods = (case modules theme of Some ms \<Rightarrow> ms | None \<Rightarrow> the (modules POWERLINE_THEME))
     in bind (powerlineSegments world variables mods 0) (\<lambda>segments.
          Returns (concat segments)))"

section \<open>The status line\<close>

text \<open>
  The session input arrives as JSON and is not validated either: an absent field is
  \<open>None\<close>. Only the fields that \<open>parseStatusLineData\<close> reads are kept.
\<close>

record ModelInfo =
  display_name :: "jsstring option"

record Workspace =
  current_dir :: "jsstring option"

record StatusLineInput =
  transcript_path :: "jsstring option"
  inputModel :: "ModelInfo option"
  workspace :: "Workspace option"

text \<open>\<open>s.split(sep)\<close> for a separator of one code unit; the result is never empty.\<close>

fun split :: "jschar \<Rightarrow> jsstring \<Rightarrow> jsstring list" where
  "split sep [] = [[]]"
| "split sep (c # cs) =
    (if c = sep then [] # split sep cs
     else (case split sep cs of
             p # ps \<Rightarrow> (c # p) # ps
           | [] \<Rightarrow> [[c]]))"

text \<open>\<open>s.includes(sub)\<close>.\<close>

fun "includes" :: "jsstring \<Rightarrow> jsstring \<Rightarrow> bool" where
  "includes [] sub \<longleftrightarrow> sub = []"
| "includes (c # cs) sub \<longleftrightarrow> startsWith (c # cs) sub \<or> includes cs sub"

text \<open>\<open>xs[i]\<close> on an array: \<open>undefined\<close> past the end.\<close>

definition at :: "jsstring list \<Rightarrow> nat \<Rightarrow> jsstring option" where
  "at xs i = (if i < length xs then Some (xs ! i) else None)"

text \<open>
  A number that may be \<open>undefined\<close>: \<open>undefined > 1000\<close> is false, and a template
  literal prints it as \<open>undefined\<close>.
\<close>

definition showNumber :: "int option \<Rightarrow> jsstring" where
  "showNumber x = (case x of None \<Rightarrow> js ''undefined'' | Some n \<Rightarrow> show_int n)"

definition formatUsage :: "World \<Rightarrow> int option \<Rightarrow> int option \<Rightarrow> jsstring" where
  "formatUsage world input_toks output_toks =
    (let big = (\<lambda>x. case x of None \<Rightarrow> False | Some n \<Rightarrow> n > 1000);
         fmt = (\<lambda>x. case x of
                      None \<Rightarrow> showNumber x
                    | Some n \<Rightarrow> if n > 1000 then toFixed1 world n @ js ''k'' else showNumber x)
     in if big input_toks \<or> big output_toks
        then fmt input_toks @ js '' '' @ fmt output_toks
        else showNumber input_toks @ js '' '' @ showNumber output_toks)"

definition formatTokensWithK :: "int \<Rightarrow> jsstring" where
  "formatTokensWithK tokens =
    (if tokens > 1000 then show_int (Math_round_div1000 tokens) @ js ''k''
     else show_int tokens)"

definition getProjectThemeConfig :: "World \<Rightarrow> StatusLineThemeConfig option \<times> jsstring" where
  "getProjectThemeConfig world =
    (let configPath = CONFIG_FILE world
     in if \<not> fs_access world configPath then (None, js ''default'')
        else
          (case fs_readFile world configPath of
             None \<Rightarrow> (None, js ''default'')
           | Some configContent \<Rightarrow>
              (case JSON5_parse world configContent of
                 None \<Rightarrow> (None, js ''default'')
               | Some config \<Rightarrow>
                  (case StatusLine config of
                     None \<Rightarrow> (None, js ''default'')
                   | Some statusLine \<Rightarrow>
                      (let style = (if truthy (currentStyle statusLine)
                                    then orEmpty (currentStyle statusLine) else js ''default'')
                       in (case styles statusLine style of
                             None \<Rightarrow> (None, js ''default'')
                           | Some theme \<Rightarrow>
                               if modules theme \<noteq> None then (Some theme, style)
                               else (None, js ''default'')))))))"

definition shouldUseSimpleTheme :: "World \<Rightarrow> bool" where
  "shouldUseSimpleTheme world =
    (if env world (js ''USE_SIMPLE_ICONS'') = Some (js ''true'') then True
     else
       (let term = orEmpty (env world (js ''TERM''));
            unsupportedTerms = [js ''dumb'', js ''unknown'']
        in if term \<in> set unsupportedTerms then True else False))"

definition canDisplayNerdFonts :: "World \<Rightarrow> bool" where
  "canDisplayNerdFonts world =
    (if env world (js ''USE_SIMPLE_ICONS'') = Some (js ''true'') then False
     else if list_ex (\<lambda>envVar.
               let v = env world envVar
               in truthy v \<and> (includes (orEmpty v) (js ''Nerd'') \<or> includes (orEmpty v) (js ''nerd'')))
             [js ''NERD_FONT'', js ''NERDFONT'', js ''FONT'']
     then True
     else if orEmpty (env world (js ''TERM_PROGRAM''))
             \<in> set [js ''iTerm.app'', js ''vscode'', js ''Hyper'', js ''kitty'', js ''alacritty'']
     then True
     else if includes (orEmpty (env world (js ''COLORTERM''))) (js ''truecolor'')
             \<or> includes (orEmpty (env world (js ''COLORTERM''))) (js ''24bit'')
     then True
     else env world (js ''USE_SIMPLE_ICONS'') \<noteq> Some (js ''true''))"

text \<open>
  The backward search for the last assistant record, on the lines from the last to the
  first. The result is \<open>model\<close>, \<open>inputTokens\<close> and \<open>outputTokens\<close>, which start as
  \<open>""\<close>, \<open>0\<close> and \<open>0\<close>. A record of type \<open>assistant\<close> without \<open>message\<close> throws a
  \<open>TypeError\<close> that the loop catches.
\<close>

fun findAssistant :: "json_parse \<Rightarrow> jsstring list \<Rightarrow> jsstring \<times> int option \<times> int option" where
  "findAssistant parse [] = ([], Some 0, Some 0)"
| "findAssistant parse (line # earlier) =
    (case parse line of
       None \<Rightarrow> findAssistant parse earlier
     | Some msg \<Rightarrow>
        if rtype msg = Some (js ''assistant'') then
          (case message msg of
             None \<Rightarrow> findAssistant parse earlier
           | Some mm \<Rightarrow>
              if truthy (model mm) then
                (case usage mm of
                   Some u \<Rightarrow> (orEmpty (model mm), input_tokens u, output_tokens u)
                 | None \<Rightarrow> (orEmpty (model mm), Some 0, Some 0))
              else findAssistant parse earlier)
        else findAssistant parse earlier)"

text \<open>
  The model name of the router configuration: the project file when \<open>fs.access\<close> finds
  it, the user file otherwise; the second field of \<open>Router.default\<close>, trimmed. Every
  failure is caught and leaves \<open>model\<close> empty.
\<close>

definition modelFromConfig :: "World \<Rightarrow> jsstring option \<Rightarrow> jsstring" where
  "modelFromConfig world workDir =
    (case workDir of
       None \<Rightarrow> []
     | Some dir \<Rightarrow>
        (let projectConfigPath = path_join world [dir, js ''.claude-code-router'', js ''config.json''];
             configPath = (if fs_access world projectConfigPath then projectConfigPath
                           else CONFIG_FILE world)
         in (case fs_readFile world configPath of
               None \<Rightarrow> []
             | Some configContent \<Rightarrow>
                (case JSON5_parse world configContent of
                   None \<Rightarrow> []
                 | Some config \<Rightarrow>
                    (case Router config of
                       None \<Rightarrow> []
                     | Some router \<Rightarrow>
                        if truthy (routerDefault router) then
                          (let defaultModel = at (split 0x2C (orEmpty (routerDefault router))) 1
                           in if truthy defaultModel then trim (orEmpty defaultModel) else [])
                        else [])))))"

text \<open>The object literal \<open>variables\<close>; a value may be \<open>undefined\<close>.\<close>

definition objectOf :: "(jsstring \<times> jsstring option) list \<Rightarrow> variables" where
  "objectOf entries name = (case map_of entries name of None \<Rightarrow> None | Some v \<Rightarrow> v)"

text \<open>The body of the \<open>try\<close> block of \<open>parseStatusLineData\<close>.\<close>

definition statusLineBody :: "World \<Rightarrow> StatusLineInput \<Rightarrow> jsstring outcome" where
  "statusLineBody world input =
    (let useSimpleTheme = shouldUseSimpleTheme world;
         canDisplayNerd = canDisplayNerdFonts world;
         effectiveTheme = (if useSimpleTheme \<or> \<not> canDisplayNerd then SIMPLE_THEME else DEFAULT_THEME);
         projectTheme = fst (getProjectThemeConfig world);
         style = snd (getProjectThemeConfig world);
         theme = (case projectTheme of Some t \<Rightarrow> t | None \<Rightarrow> effectiveTheme)
     in bind (case workspace input of
                None \<Rightarrow> Throws TypeError
              | Some ws \<Rightarrow> Returns (current_dir ws)) (\<lambda>workDir.
        let gitBranch = (case execSync_git world workDir of
                           Some out \<Rightarrow> trim out
                         | None \<Rightarrow> [])
        in bind (case transcript_path input of
                   None \<Rightarrow> Throws TypeError
                 | Some p \<Rightarrow>
                    (case fs_readFile world p of
                       None \<Rightarrow> Throws IOError
                     | Some content \<Rightarrow> Returns content)) (\<lambda>transcriptContent.
        let lines = split 0x0A (trim transcriptContent);
            tokenStats = calculateTotalTokens (JSON_parse world) lines;
            found = findAssistant (JSON_parse world) (rev lines);
            inputTokens = fst (snd found);
            outputTokens = snd (snd found);
            model1 = (if fst found = [] then modelFromConfig world workDir else fst found)
        in bind (if model1 = [] then
                   (case inputModel input of
                      None \<Rightarrow> Throws TypeError
                    | Some mi \<Rightarrow> Returns (display_name mi))
                 else Returns (Some model1)) (\<lambda>modelName.
           bind (case workDir of
                   None \<Rightarrow> Throws TypeError
                 | Some dir \<Rightarrow> Returns (last (split 0x2F dir))) (\<lambda>workDirName.
           let usageStr = formatUsage world inputTokens outputTokens;
               formattedInputTokens = at (split 0x20 usageStr) 0;
               formattedOutputTokens = at (split 0x20 usageStr) 1;
               totalUsedFormatted = formatTokensWithK (totalUsed tokenStats);
               totalRemainingFormatted = formatTokensWithK (totalRemaining tokenStats);
               totalTokensDisplay =
                 totalUsedFormatted @ js ''/'' @ maxTokensFormatted tokenStats @ js '' used | ''
                 @ totalRemainingFormatted @ js '' remaining'';
               variables = objectOf
                 [(js ''workDirName'', Some workDirName),
                  (js ''gitBranch'', Some gitBranch),
                  (js ''model'', modelName),
                  (js ''inputTokens'', formattedInputTokens),
                  (js ''outputTokens'', formattedOutputTokens),
                  (js ''totalTokens'', Some totalTokensDisplay),
                  (js ''totalUsed'', Some totalUsedFormatted),
                  (js ''totalRemaining'', Some totalRemainingFormatted),
                  (js ''maxTokens'', Some (maxTokensFormatted tokenStats))];
               isPowerline = (style = js ''powerline'')
           in if isPowerline then renderPowerlineStyle world theme variables
              else renderDefaultStyle world theme variables)))))"

text \<open>\<open>parseStatusLineData\<close>: the body, and \<open>return ""\<close> in the \<open>catch\<close>.\<close>

definition parseStatusLineData :: "World \<Rightarrow> StatusLineInput \<Rightarrow> jsstring outcome" where
  "parseStatusLineData world input = tryCatch (statusLineBody world input) (Returns [])"

section \<open>Names that object literals inherit\<close>

text \<open>
  \<open>COLORS[name]\<close> and \<open>COLOR_MAP[name]\<close> also find the members that every object literal
  inherits from \<open>Object.prototype\<close>, which are functions and no colours. The tables of the
  model hold the own keys only, so a statement about colour names is made for modules
  whose \<open>color\<close> and \<open>background\<close> are none of the inherited names.
\<close>

definition inheritedNames :: "jsstring list" where
  "inheritedNames =
    [js ''constructor'', js ''toString'', js ''toLocaleString'', js ''valueOf'',
     js ''hasOwnProperty'', js ''isPrototypeOf'', js ''propertyIsEnumerable'',
     js ''__proto__'', js ''__defineGetter__'', js ''__defineSetter__'',
     js ''__lookupGetter__'', js ''__lookupSetter__'']"

definition ownColourNames :: "StatusLineModuleConfig \<Rightarrow> bool" where
  "ownColourNames module \<longleftrightarrow>
     orEmpty (color module) \<notin> set inheritedNames
   \<and> orEmpty (background module) \<notin> set inheritedNames"

section \<open>Inputs used in evaluations\<close>

text \<open>A world without files, environment variables or scripts.\<close>

definition quietWorld :: World where
  "quietWorld = \<lparr>env = (\<lambda>_. None), fs_access = (\<lambda>_. False), fs_readFile = (\<lambda>_. None),
     JSON5_parse = (\<lambda>_. None), JSON_parse = (\<lambda>_. None), execSync_git = (\<lambda>_. None),
     require = (\<lambda>_. Throws IOError), path_join = join (js ''/''),
     CONFIG_FILE = js ''/home/user/.claude-code-router/config.json'',
     toFixed1 = (\<lambda>n. show_int (n div 1000) @ js ''.0'')\<rparr>"

definition noVariables :: variables where
  "noVariables = (\<lambda>_. None)"

text \<open>A module of plain text on a background, without icon.\<close>

definition plainModule :: "string \<Rightarrow> jsstring option \<Rightarrow> StatusLineModuleConfig" where
  "plainModule t bg = \<lparr>type = Some (js ''text''), icon = None, text = Some (js t),
     color = Some (js ''white''), background = bg, scriptPath = None\<rparr>"

definition redThenBlue :: "StatusLineModuleConfig list" where
  "redThenBlue = [plainModule ''a'' (Some (js ''bg_red'')), plainModule ''b'' (Some (js ''bg_blue''))]"

text \<open>\<open>bg_orange\<close> is no key of \<open>COLOR_MAP\<close> (the table has \<open>bg_bright_orange\<close>).\<close>

definition unresolvedThenBlue :: "StatusLineModuleConfig list" where
  "unresolvedThenBlue =
     [plainModule ''a'' (Some (js ''bg_orange'')), plainModule ''b'' (Some (js ''bg_blue''))]"

definition redThenPlain :: "StatusLineModuleConfig list" where
  "redThenPlain = [plainModule ''a'' (Some (js ''bg_red'')), plainModule ''b'' None]"

definition sixModules :: "StatusLineModuleConfig list" where
  "sixModules =
     [plainModule ''a'' (Some (js ''bg_red'')), plainModule ''b'' (Some (js ''bg_green'')),
      plainModule ''c'' (Some (js ''bg_yellow'')), plainModule ''d'' (Some (js ''bg_blue'')),
      plainModule ''e'' (Some (js ''bg_magenta'')), plainModule ''f'' (Some (js ''bg_cyan''))]"

text \<open>The git module of the default theme; outside a repository its text is empty.\<close>

definition gitBranchModule :: StatusLineModuleConfig where
  "gitBranchModule = \<lparr>type = Some (js ''gitBranch''), icon = Some [0xE725],
     text = Some (js ''{{gitBranch}}''), color = Some (js ''bright_magenta''),
     background = None, scriptPath = None\<rparr>"



definition sampleInput :: StatusLineInput where
  "sampleInput = \<lparr>transcript_path = Some (js ''/tmp/transcript.jsonl''),
     inputModel = Some \<lparr>display_name = Some (js ''Opus'')\<rparr>,
     workspace = Some \<lparr>current_dir = Some (js ''/home/user/project'')\<rparr>\<rparr>"

text \<open>What the powerline renderer returns for two of these themes.\<close>

definition unresolvedThenBlueOutput :: jsstring where
  "unresolvedThenBlueOutput =
     bgEscape \<lparr>r = 33, g = 150, b = 243\<rparr> @ fgEscape \<lparr>r = 255, g = 255, b = 255\<rparr>
     @ js '' a '' @ reset
     @ bgEscape \<lparr>r = 0, g = 0, b = 128\<rparr> @ fgEscape \<lparr>r = 192, g = 192, b = 192\<rparr>
     @ js '' b '' @ reset"

definition redThenPlainOutput :: jsstring where
  "redThenPlainOutput =
     bgEscape \<lparr>r = 128, g = 0, b = 0\<rparr> @ fgEscape \<lparr>r = 192, g = 192, b = 192\<rparr>
     @ js '' a '' @ reset
     @ bgEscape \<lparr>r = 0, g = 0, b = 255\<rparr> @ fgEscape \<lparr>r = 192, g = 192, b = 192\<rparr>
     @ js '' b '' @ reset"

section \<open>Properties of the colour table\<close>

lemma cubeLevels_range: "k < 6 \<Longrightarrow> 0 \<le> cubeLevels ! k \<and> cubeLevels ! k \<le> 255"
  by (auto simp: cubeLevels_def less_Suc_eq numeral_eq_Suc nth_Cons')

lemma basicColors_range:
  "k < 16 \<Longrightarrow> j < 3 \<Longrightarrow> 0 \<le> basicColors ! k ! j \<and> basicColors ! k ! j \<le> 255"
  by (auto simp: basicColors_def less_Suc_eq numeral_eq_Suc nth_Cons')

text \<open>
  C9. For every index from 0 to 255, \<open>color256ToRgb\<close> returns a triple whose channels
  all lie between 0 and 255. For the indices 16 to 231 the triple is the one of the
  6-level cube: with \<open>i = index - 16\<close>, the channels are the levels
  \<open>[0, 95, 135, 175, 215, 255]\<close> at \<open>i / 36\<close>, \<open>(i % 36) / 6\<close> and \<open>i % 6\<close>. For the
  indices 232 to 255 the three channels are \<open>8 + (index - 232) * 10\<close>.
\<close>

theorem color256ToRgb_range_and_formula:
  assumes "0 \<le> index" and "index \<le> 255"
  shows "\<exists>c. color256ToRgb index = Some c
           \<and> 0 \<le> r c \<and> r c \<le> 255 \<and> 0 \<le> g c \<and> g c \<le> 255 \<and> 0 \<le> b c \<and> b c \<le> 255
           \<and> (16 \<le> index \<and> index \<le> 231 \<longrightarrow>
                r c = [0, 95, 135, 175, 215, 255] ! nat ((index - 16) div 36)
              \<and> g c = [0, 95, 135, 175, 215, 255] ! nat (((index - 16) mod 36) div 6)
              \<and> b c = [0, 95, 135, 175, 215, 255] ! nat ((index - 16) mod 6))
           \<and> (232 \<le> index \<longrightarrow> r c = 8 + (index - 232) * 10 \<and> g c = r c \<and> b c = r c)"
proof -
  consider "index < 16" | "16 \<le> index" "index < 232" | "232 \<le> index" by linarith
  then show ?thesis
  proof cases
    case 1
    with assms have "nat index < 16" by simp
    from basicColors_range[OF this, of 0] basicColors_range[OF this, of 1]
      basicColors_range[OF this, of 2]
    show ?thesis using 1 assms by (simp add: color256ToRgb_def)
  next
    case 2
    define i where "i = index - 16"
    have i: "0 \<le> i" "i < 216" using 2 by (simp_all add: i_def)
    have "nat (i div 36) < 6" "nat ((i mod 36) div 6) < 6" "nat (i mod 6) < 6"
      using i by auto
    from cubeLevels_range[OF this(1)] cubeLevels_range[OF this(2)] cubeLevels_range[OF this(3)]
    show ?thesis using 2 assms by (simp add: color256ToRgb_def Let_def i_def cubeLevels_def)
  next
    case 3
    then show ?thesis using assms by (simp add: color256ToRgb_def Let_def)
  qed
qed

theorem color256ToRgb_range_and_formula_witness:
  "(0::int) \<le> 202 \<and> (202::int) \<le> 255 \<and> (16::int) \<le> 202 \<and> (202::int) \<le> 231
   \<and> color256ToRgb 202 = Some \<lparr>r = 255, g = 95, b = 0\<rparr>
   \<and> (232::int) \<le> 240 \<and> (240::int) \<le> 255
   \<and> color256ToRgb 240 = Some \<lparr>r = 88, g = 88, b = 88\<rparr>"
  using color256ToRgb_range_and_formula[of 202] color256ToRgb_range_and_formula[of 240]
  by auto

section \<open>Properties of the token accounting\<close>

lemma maxTokensFormatted_200k: "show_int (Math_round_div1000 200000) @ js ''k'' = js ''200k''"
  by (simp add: show_int_def Math_round_div1000_def js_def)

text \<open>
  C5. On an empty sequence of transcript lines \<open>calculateTotalTokens\<close> returns
  \<open>totalUsed = 138000\<close>, \<open>totalRemaining = 62000\<close> and \<open>maxTokensFormatted = "200k"\<close>.
\<close>

theorem calculateTotalTokens_empty:
  "calculateTotalTokens parse [] =
     \<lparr>totalUsed = 138000, totalRemaining = 62000, maxTokensFormatted = js ''200k''\<rparr>"
  by (simp add: calculateTotalTokens_def lastUsage_def maxTokensFormatted_200k)

lemma lastUsage_last:
  "lines \<noteq> [] \<Longrightarrow> lastUsage parse lines =
     (case parse (last lines) of None \<Rightarrow> None | Some m \<Rightarrow> usageOf m)"
  by (simp add: lastUsage_def last_conv_nth)

text \<open>
  C1, as the source has it. The claim says that a transcript whose last parseable line
  has \<open>cache_read_input_tokens = 190000\<close>, \<open>input_tokens = 5000\<close>,
  \<open>output_tokens = 3000\<close> and \<open>cache_creation_input_tokens = 1000\<close> gives
  \<open>totalUsed = 200000\<close> and \<open>totalRemaining = 0\<close>. The four counters add up to 199000,
  which is below the ceiling, so nothing is clamped: on the transcript of that one line
  the result is \<open>totalUsed = 199000\<close> and \<open>totalRemaining = 1000\<close>. And it is the last
  line that is read, parseable or not: when a line that does not parse follows, the
  branch without cache counters gives \<open>totalUsed = 5000 + 3000\<close>.
\<close>

theorem calculateTotalTokens_cached_turn_not_clamped:
  "totalUsed (calculateTotalTokens (map_of [(js ''turn'', cachedTurn)]) [js ''turn'']) = 199000
 \<and> totalRemaining (calculateTotalTokens (map_of [(js ''turn'', cachedTurn)]) [js ''turn'']) = 1000
 \<and> totalUsed (calculateTotalTokens (map_of [(js ''turn'', cachedTurn)]) [js ''turn''])
     \<noteq> 200000
 \<and> map_of [(js ''turn'', cachedTurn)] (js ''not json'') = None
 \<and> totalUsed (calculateTotalTokens (map_of [(js ''turn'', cachedTurn)])
       [js ''turn'', js ''not json'']) = 8000
 \<and> totalRemaining (calculateTotalTokens (map_of [(js ''turn'', cachedTurn)])
       [js ''turn'', js ''not json'']) = 192000"
  by (simp add: calculateTotalTokens_def lastUsage_def or0_def Let_def cachedTurn_def usageOf_def
      addLine_def trim_def isWhiteSpace_def js_def)

text \<open>
  C1, amended. For every transcript whose last line parses to a record with that usage
  object, \<open>calculateTotalTokens\<close> returns \<open>totalUsed = 199000\<close> and
  \<open>totalRemaining = 1000\<close>. It is the last line that is read, \<open>lines[lines.length - 1]\<close>,
  whether or not it parses.
\<close>

theorem calculateTotalTokens_cached_turn:
  assumes "lines \<noteq> []"
    and "parse (last lines) = Some m"
    and "usageOf m = Some \<lparr>input_tokens = Some 5000, output_tokens = Some 3000,
                     cache_creation_input_tokens = Some 1000,
                     cache_read_input_tokens = Some 190000\<rparr>"
  shows "totalUsed (calculateTotalTokens parse lines) = 199000
       \<and> totalRemaining (calculateTotalTokens parse lines) = 1000"
  using assms by (simp add: calculateTotalTokens_def lastUsage_last or0_def Let_def)

theorem calculateTotalTokens_cached_turn_witness:
  "[js ''turn1'', js ''turn''] \<noteq> []
 \<and> (fallbackParse(js ''turn'' \<mapsto> cachedTurn)) (last [js ''turn1'', js ''turn'']) = Some cachedTurn
 \<and> usageOf cachedTurn = Some \<lparr>input_tokens = Some 5000, output_tokens = Some 3000,
                     cache_creation_input_tokens = Some 1000,
                     cache_read_input_tokens = Some 190000\<rparr>
 \<and> totalUsed (calculateTotalTokens (fallbackParse(js ''turn'' \<mapsto> cachedTurn))
      [js ''turn1'', js ''turn'']) = 199000
 \<and> totalRemaining (calculateTotalTokens (fallbackParse(js ''turn'' \<mapsto> cachedTurn))
      [js ''turn1'', js ''turn'']) = 1000"
proof -
  have h1: "[js ''turn1'', js ''turn''] \<noteq> []" by simp
  have h2: "(fallbackParse(js ''turn'' \<mapsto> cachedTurn)) (last [js ''turn1'', js ''turn''])
            = Some cachedTurn" by simp
  have h3: "usageOf cachedTurn = Some \<lparr>input_tokens = Some 5000, output_tokens = Some 3000,
                     cache_creation_input_tokens = Some 1000,
                     cache_read_input_tokens = Some 190000\<rparr>"
    by (simp add: usageOf_def cachedTurn_def)
  from calculateTotalTokens_cached_turn
         [where lines = "[js ''turn1'', js ''turn'']"
            and parse = "fallbackParse(js ''turn'' \<mapsto> cachedTurn)"
            and m = cachedTurn, OF h1 h2 h3] h1 h2 h3
  show ?thesis by blast
qed

lemma sumLines_nonneg:
  "list_all (nonnegLine parse) lines \<Longrightarrow> 0 \<le> totalInputTokens t \<Longrightarrow> 0 \<le> totalOutputTokens t
   \<Longrightarrow> 0 \<le> totalInputTokens (sumLines parse t lines)
     \<and> 0 \<le> totalOutputTokens (sumLines parse t lines)"
proof (induction lines arbitrary: t)
  case Nil
  then show ?case by simp
next
  case (Cons line lines)
  have "0 \<le> totalInputTokens (addLine parse t line)
      \<and> 0 \<le> totalOutputTokens (addLine parse t line)"
    using Cons.prems
    by (auto simp: addLine_def nonnegLine_def nonnegUsage_def split: option.splits)
  with Cons show ?case by simp
qed

lemma lastUsage_nonneg:
  assumes "list_all (nonnegLine parse) lines" and "lastUsage parse lines = Some u"
  shows "nonnegUsage u"
proof -
  from assms(2) have ne: "lines \<noteq> []" by (auto simp: lastUsage_def)
  then have "last lines \<in> set lines" by simp
  with assms(1) have "nonnegLine parse (last lines)" by (simp add: list_all_iff)
  with assms(2) ne show ?thesis
    by (auto simp: lastUsage_last nonnegLine_def split: option.splits)
qed

text \<open>
  C2, as the source has it. The claim says that \<open>totalUsed + totalRemaining = 200000\<close>
  for every transcript. Only the branch taken when the last line has a positive
  \<open>cache_read_input_tokens\<close> clamps \<open>totalUsed\<close>; the other branch returns the sum of all
  input and output tokens as it is. Three lines of 100000 input tokens each, without
  cache counters, give \<open>totalUsed = 300000\<close> and \<open>totalRemaining = 0\<close>.
\<close>

theorem calculateTotalTokens_fallback_exceeds_ceiling:
  "totalUsed (calculateTotalTokens fallbackParse [js ''turn1'', js ''turn2'', js ''turn3''])
     = 300000
 \<and> totalRemaining (calculateTotalTokens fallbackParse [js ''turn1'', js ''turn2'', js ''turn3''])
     = 0
 \<and> totalUsed (calculateTotalTokens fallbackParse [js ''turn1'', js ''turn2'', js ''turn3''])
   + totalRemaining (calculateTotalTokens fallbackParse [js ''turn1'', js ''turn2'', js ''turn3''])
   \<noteq> 200000"
  by (simp add: calculateTotalTokens_def lastUsage_def or0_def Let_def fallbackParse_def
      fallbackTurn_def usageOf_def addLine_def trim_def isWhiteSpace_def js_def)

text \<open>
  C2, amended. For every sequence of transcript lines, \<open>totalRemaining\<close> is
  \<open>max(0, 200000 - totalUsed)\<close> and so is never negative; \<open>totalUsed + totalRemaining\<close>
  is 200000 whenever \<open>totalUsed\<close> is at most 200000, which is the case whenever the last
  line has a positive \<open>cache_read_input_tokens\<close>; and \<open>totalUsed\<close> is not negative when
  no token counter in the transcript is.
\<close>

theorem calculateTotalTokens_bounds:
  "0 \<le> totalRemaining (calculateTotalTokens parse lines)
 \<and> totalRemaining (calculateTotalTokens parse lines)
     = max 0 (200000 - totalUsed (calculateTotalTokens parse lines))
 \<and> (totalUsed (calculateTotalTokens parse lines) \<le> 200000 \<longrightarrow>
      totalUsed (calculateTotalTokens parse lines)
      + totalRemaining (calculateTotalTokens parse lines) = 200000)
 \<and> ((\<exists>u. lastUsage parse lines = Some u \<and> 0 < or0 (cache_read_input_tokens u)) \<longrightarrow>
      totalUsed (calculateTotalTokens parse lines) \<le> 200000)
 \<and> (list_all (nonnegLine parse) lines \<longrightarrow> 0 \<le> totalUsed (calculateTotalTokens parse lines))"
proof (intro conjI impI)
  show "0 \<le> totalRemaining (calculateTotalTokens parse lines)"
    by (simp add: calculateTotalTokens_def Let_def)
  show "totalRemaining (calculateTotalTokens parse lines)
     = max 0 (200000 - totalUsed (calculateTotalTokens parse lines))"
    by (simp add: calculateTotalTokens_def Let_def)
  then show "totalUsed (calculateTotalTokens parse lines)
      + totalRemaining (calculateTotalTokens parse lines) = 200000"
    if "totalUsed (calculateTotalTokens parse lines) \<le> 200000"
    using that by simp
  show "totalUsed (calculateTotalTokens parse lines) \<le> 200000"
    if "\<exists>u. lastUsage parse lines = Some u \<and> 0 < or0 (cache_read_input_tokens u)"
    using that by (auto simp: calculateTotalTokens_def Let_def)
  show "0 \<le> totalUsed (calculateTotalTokens parse lines)"
    if nn: "list_all (nonnegLine parse) lines"
  proof -
    let ?t = "sumLines parse \<lparr>totalInputTokens = 0, totalOutputTokens = 0,
                totalCacheCreationTokens = 0, totalCacheReadTokens = 0\<rparr> lines"
    have tot: "0 \<le> totalInputTokens ?t \<and> 0 \<le> totalOutputTokens ?t"
      by (rule sumLines_nonneg[OF nn]) simp_all
    show ?thesis
    proof (cases "lastUsage parse lines")
      case None
      with tot show ?thesis by (simp add: calculateTotalTokens_def Let_def)
    next
      case (Some u)
      from lastUsage_nonneg[OF nn Some] tot Some show ?thesis
        by (simp add: calculateTotalTokens_def Let_def nonnegUsage_def)
    qed
  qed
qed

theorem calculateTotalTokens_bounds_witness:
  "list_all (nonnegLine (map_of [(js ''turn'', cachedTurn)])) [js ''turn'']
 \<and> (\<exists>u. lastUsage (map_of [(js ''turn'', cachedTurn)]) [js ''turn''] = Some u
        \<and> 0 < or0 (cache_read_input_tokens u))
 \<and> totalUsed (calculateTotalTokens (map_of [(js ''turn'', cachedTurn)]) [js ''turn'']) \<le> 200000
 \<and> 0 \<le> totalUsed (calculateTotalTokens (map_of [(js ''turn'', cachedTurn)]) [js ''turn''])
 \<and> totalUsed (calculateTotalTokens (map_of [(js ''turn'', cachedTurn)]) [js ''turn''])
   + totalRemaining (calculateTotalTokens (map_of [(js ''turn'', cachedTurn)]) [js ''turn''])
   = 200000"
proof -
  have h1: "list_all (nonnegLine (map_of [(js ''turn'', cachedTurn)])) [js ''turn'']"
    by (simp add: nonnegLine_def nonnegUsage_def cachedTurn_def usageOf_def or0_def)
  have h2: "\<exists>u. lastUsage (map_of [(js ''turn'', cachedTurn)]) [js ''turn''] = Some u
        \<and> 0 < or0 (cache_read_input_tokens u)"
    by (simp add: lastUsage_def cachedTurn_def usageOf_def or0_def)
  from calculateTotalTokens_bounds[of "map_of [(js ''turn'', cachedTurn)]" "[js ''turn'']"] h1 h2
  show ?thesis by blast
qed

section \<open>Rewriting the effectful steps\<close>

lemma bind_simps [simp]:
  "bind (Returns v) f = f v" "bind (Throws e) f = Throws e" "bind Diverges f = Diverges"
  by (simp_all add: bind_def)

lemma tryCatch_simps [simp]:
  "tryCatch (Returns v) h = Returns v" "tryCatch (Throws e) h = h" "tryCatch Diverges h = Diverges"
  by (simp_all add: tryCatch_def)

lemma js_Nil_iff [simp]: "js s = [] \<longleftrightarrow> s = []"
  by (simp add: js_def)

lemma js_append: "js (s @ t) = js s @ js t"
  by (simp add: js_def)

lemma truthy_simps [simp]: "truthy None = False" "truthy (Some v) \<longleftrightarrow> v \<noteq> []"
  by (simp_all add: truthy_def)

lemma orEmpty_simps [simp]: "orEmpty None = []" "orEmpty (Some v) = v"
  by (simp_all add: orEmpty_def)

lemma matchVariable_no_brace: "s = [] \<or> hd s \<noteq> 0x7B \<Longrightarrow> matchVariable s = None"
  by (cases s) (auto simp: matchVariable_def startsWith_def js_def)

lemma replaceVariables_no_brace: "0x7B \<notin> set s \<Longrightarrow> replaceVariables s variables = s"
proof (induction s)
  case Nil
  show ?case by (subst replaceVariables.simps) simp
next
  case (Cons c cs)
  then have "matchVariable (c # cs) = None" by (intro matchVariable_no_brace) simp
  with Cons show ?case by (subst replaceVariables.simps) simp
qed

lemma moduleText_plainModule:
  "0x7B \<notin> set (js t) \<Longrightarrow> moduleText world (plainModule t bg) variables = Returns (js t)"
  by (simp add: moduleText_def plainModule_def replaceVariables_no_brace)

lemma plainModule_fields [simp]:
  "icon (plainModule t bg) = None" "color (plainModule t bg) = Some (js ''white'')"
  "background (plainModule t bg) = bg"
  by (simp_all add: plainModule_def)

lemma displayTextOf_plainModule [simp]: "displayTextOf (plainModule t bg) txt = txt"
  by (simp add: displayTextOf_def)

lemma colorNameOf_plainModule [simp]: "colorNameOf (plainModule t bg) = js ''white''"
  by (simp add: colorNameOf_def)

lemma actualBackgroundOf_Some [simp]:
  "v \<noteq> [] \<Longrightarrow> actualBackgroundOf (plainModule t (Some v)) = v"
  by (simp add: actualBackgroundOf_def)

lemma actualBackgroundOf_None [simp]:
  "actualBackgroundOf (plainModule t None) = js ''bg_bright_blue''"
  by (simp add: actualBackgroundOf_def)

lemma colour_values:
  "getTrueColorRgb (js ''white'') = Some \<lparr>r = 192, g = 192, b = 192\<rparr>"
  "getTrueColorRgb (js ''bg_red'') = Some \<lparr>r = 128, g = 0, b = 0\<rparr>"
  "getTrueColorRgb (js ''bg_blue'') = Some \<lparr>r = 0, g = 0, b = 128\<rparr>"
  "getTrueColorRgb (js ''bg_magenta'') = Some \<lparr>r = 128, g = 0, b = 128\<rparr>"
  "getTrueColorRgb (js ''bg_cyan'') = Some \<lparr>r = 0, g = 128, b = 128\<rparr>"
  "getTrueColorRgb (js ''bg_bright_blue'') = Some \<lparr>r = 0, g = 0, b = 255\<rparr>"
  "getTrueColorRgb (js ''bg_orange'') = None"
  by (simp_all add: getTrueColorRgb_def COLOR_MAP_def js_def color256ToRgb_def basicColors_def
        startsWith_def isHex6_def isHex3_def)

lemma letters_no_brace: "0x7B \<notin> set (js ''a'')" "0x7B \<notin> set (js ''b'')" "0x7B \<notin> set (js ''c'')"
  "0x7B \<notin> set (js ''d'')" "0x7B \<notin> set (js ''e'')" "0x7B \<notin> set (js ''f'')"
  by (simp_all add: js_def)

lemma letter_texts [simp]:
  "moduleText world (plainModule ''a'' bg) variables = Returns (js ''a'')"
  "moduleText world (plainModule ''b'' bg) variables = Returns (js ''b'')"
  "moduleText world (plainModule ''c'' bg) variables = Returns (js ''c'')"
  "moduleText world (plainModule ''d'' bg) variables = Returns (js ''d'')"
  "moduleText world (plainModule ''e'' bg) variables = Returns (js ''e'')"
  "moduleText world (plainModule ''f'' bg) variables = Returns (js ''f'')"
  by (simp_all add: moduleText_plainModule letters_no_brace)

section \<open>Properties of hexadecimal colours\<close>

lemma isHexDigit_not_special:
  assumes "isHexDigit c"
  shows "\<not> isWhiteSpace c" "c \<noteq> 0x2D" "c \<noteq> 0x2B" "c \<noteq> 0x78" "c \<noteq> 0x58" "c \<noteq> 0x23"
  using assms by (auto simp: isHexDigit_def isWhiteSpace_def word_le_def)

lemma hexDigitValue_range: "isHexDigit c \<Longrightarrow> 0 \<le> hexDigitValue c \<and> hexDigitValue c \<le> 15"
  by (auto simp: isHexDigit_def hexDigitValue_def word_le_def)

lemma parseInt16_pair:
  assumes "isHexDigit a" "isHexDigit c"
  shows "parseInt16 [a, c] = Some (16 * hexDigitValue a + hexDigitValue c)"
  using assms isHexDigit_not_special[OF assms(1)] isHexDigit_not_special[OF assms(2)]
  by (simp add: parseInt16_def hexValue_def Let_def)

lemma trim_hex6:
  assumes "isHexDigit a" "isHexDigit f"
  shows "trim (a # m @ [f]) = a # m @ [f]"
  using isHexDigit_not_special(1)[OF assms(1)] isHexDigit_not_special(1)[OF assms(2)]
  by (simp add: trim_def)

lemma hexToRgb_six:
  assumes "list_all isHexDigit [a1, a2, a3, a4, a5, a6]"
  shows "hexToRgb [a1, a2, a3, a4, a5, a6] =
           Some \<lparr>r = 16 * hexDigitValue a1 + hexDigitValue a2,
                 g = 16 * hexDigitValue a3 + hexDigitValue a4,
                 b = 16 * hexDigitValue a5 + hexDigitValue a6\<rparr>"
proof -
  from assms have h: "isHexDigit a1" "isHexDigit a2" "isHexDigit a3" "isHexDigit a4"
    "isHexDigit a5" "isHexDigit a6" by simp_all
  have t: "trim [a1, a2, a3, a4, a5, a6] = [a1, a2, a3, a4, a5, a6]"
    using trim_hex6[OF h(1) h(6), of "[a2, a3, a4, a5]"] by simp
  have ns: "\<not> startsWith [a1, a2, a3, a4, a5, a6] (js ''#'')"
    using isHexDigit_not_special(6)[OF h(1)] by (simp add: startsWith_def js_def)
  note v = hexDigitValue_range[OF h(1)] hexDigitValue_range[OF h(2)] hexDigitValue_range[OF h(3)]
    hexDigitValue_range[OF h(4)] hexDigitValue_range[OF h(5)] hexDigitValue_range[OF h(6)]
  show ?thesis
    using v
    by (simp add: hexToRgb_def ns t substring_def Let_def
        parseInt16_pair[OF h(1) h(2)] parseInt16_pair[OF h(3) h(4)] parseInt16_pair[OF h(5) h(6)])
qed

lemma hexToRgb_hash_six:
  assumes "list_all isHexDigit [a1, a2, a3, a4, a5, a6]"
  shows "hexToRgb (0x23 # [a1, a2, a3, a4, a5, a6]) = hexToRgb [a1, a2, a3, a4, a5, a6]"
proof -
  from assms have h: "isHexDigit a1" by simp
  have ns: "\<not> startsWith [a1, a2, a3, a4, a5, a6] (js ''#'')"
    using isHexDigit_not_special(6)[OF h] by (simp add: startsWith_def js_def)
  have s: "startsWith (0x23 # [a1, a2, a3, a4, a5, a6]) (js ''#'')"
    by (simp add: startsWith_def js_def)
  show ?thesis
    unfolding hexToRgb_def using ns s by (simp del: list.simps)
qed

lemma hexToRgb_three:
  assumes "list_all isHexDigit [a1, a2, a3]"
  shows "hexToRgb [a1, a2, a3] = hexToRgb [a1, a1, a2, a2, a3, a3]"
proof -
  from assms have h: "isHexDigit a1" "isHexDigit a2" "isHexDigit a3" by simp_all
  have t3: "trim [a1, a2, a3] = [a1, a2, a3]"
    using trim_hex6[OF h(1) h(3), of "[a2]"] by simp
  have t6: "trim [a1, a1, a2, a2, a3, a3] = [a1, a1, a2, a2, a3, a3]"
    using trim_hex6[OF h(1) h(3), of "[a1, a2, a2, a3]"] by simp
  have ns: "\<not> startsWith [a1, a2, a3] (js ''#'')" "\<not> startsWith [a1, a1, a2, a2, a3, a3] (js ''#'')"
    using isHexDigit_not_special(6)[OF h(1)] by (simp_all add: startsWith_def js_def)
  show ?thesis
    by (simp add: hexToRgb_def ns t3 t6 Let_def)
qed

lemma COLOR_MAP_no_hex:
  assumes "list_all isHexDigit s"
  shows "map_of COLOR_MAP s = None"
proof -
  have "\<forall>k \<in> set (map fst COLOR_MAP). \<not> list_all isHexDigit k"
    by (simp add: COLOR_MAP_def js_def isHexDigit_def)
  with assms have "s \<notin> set (map fst COLOR_MAP)" by blast
  then show ?thesis by (simp add: map_of_eq_None_iff)
qed

lemma COLOR_MAP_no_hash:
  "map_of COLOR_MAP (0x23 # s) = None"
proof -
  have "\<forall>k \<in> set (map fst COLOR_MAP). hd k \<noteq> 0x23"
    by (simp add: COLOR_MAP_def js_def)
  then have "0x23 # s \<notin> set (map fst COLOR_MAP)" by force
  then show ?thesis by (simp add: map_of_eq_None_iff)
qed

text \<open>
  Well-formed tokens: a token of six hexadecimal digits, with or without a leading
  \<open>#\<close>, resolves to the triple of its three digit pairs, and a token of three
  hexadecimal digits resolves as the token with each digit doubled.
\<close>

lemma getTrueColorRgb_valid_hex:
  assumes "list_all isHexDigit [a1, a2, a3, a4, a5, a6]"
  shows "getTrueColorRgb [a1, a2, a3, a4, a5, a6] =
           Some \<lparr>r = 16 * hexDigitValue a1 + hexDigitValue a2,
                 g = 16 * hexDigitValue a3 + hexDigitValue a4,
                 b = 16 * hexDigitValue a5 + hexDigitValue a6\<rparr>"
    and "getTrueColorRgb (0x23 # [a1, a2, a3, a4, a5, a6]) =
           Some \<lparr>r = 16 * hexDigitValue a1 + hexDigitValue a2,
                 g = 16 * hexDigitValue a3 + hexDigitValue a4,
                 b = 16 * hexDigitValue a5 + hexDigitValue a6\<rparr>"
proof -
  have six: "isHex6 [a1, a2, a3, a4, a5, a6]" using assms by (simp add: isHex6_def)
  show "getTrueColorRgb [a1, a2, a3, a4, a5, a6] =
           Some \<lparr>r = 16 * hexDigitValue a1 + hexDigitValue a2,
                 g = 16 * hexDigitValue a3 + hexDigitValue a4,
                 b = 16 * hexDigitValue a5 + hexDigitValue a6\<rparr>"
    unfolding getTrueColorRgb_def COLOR_MAP_no_hex[OF assms] using six hexToRgb_six[OF assms]
    by simp
  have hs: "startsWith (0x23 # [a1, a2, a3, a4, a5, a6]) (js ''#'')"
    by (simp add: startsWith_def js_def)
  show "getTrueColorRgb (0x23 # [a1, a2, a3, a4, a5, a6]) =
           Some \<lparr>r = 16 * hexDigitValue a1 + hexDigitValue a2,
                 g = 16 * hexDigitValue a3 + hexDigitValue a4,
                 b = 16 * hexDigitValue a5 + hexDigitValue a6\<rparr>"
    unfolding getTrueColorRgb_def COLOR_MAP_no_hash using hs
      hexToRgb_hash_six[OF assms] hexToRgb_six[OF assms]
    by simp
qed

lemma getTrueColorRgb_shorthand:
  assumes "list_all isHexDigit [a1, a2, a3]"
  shows "getTrueColorRgb [a1, a2, a3] = getTrueColorRgb [a1, a1, a2, a2, a3, a3]"
proof -
  have l6: "list_all isHexDigit [a1, a1, a2, a2, a3, a3]" using assms by simp
  have "isHex3 [a1, a2, a3]" "isHex6 [a1, a1, a2, a2, a3, a3]"
    using assms by (simp_all add: isHex3_def isHex6_def)
  then show ?thesis
    unfolding getTrueColorRgb_def COLOR_MAP_no_hex[OF assms] COLOR_MAP_no_hex[OF l6]
    using hexToRgb_three[OF assms] by simp
qed

text \<open>
  C4. The claim says that every malformed hexadecimal token resolves to \<open>null\<close>. The
  source checks the three channels with \<open>isNaN\<close> and a range test, but \<open>parseInt\<close>
  reads the longest prefix of digits and ignores what follows: \<open>parseInt("1g", 16)\<close> is 1.
  The token \<open>#1g2h3i\<close>, whose digit string is not hexadecimal, resolves to the triple
  (1, 2, 3) in \<open>hexToRgb\<close> and in \<open>getTrueColorRgb\<close>.
\<close>

theorem hex_resolution_accepts_malformed:
  "hexToRgb (js ''#1g2h3i'') = Some \<lparr>r = 1, g = 2, b = 3\<rparr>
 \<and> getTrueColorRgb (js ''#1g2h3i'') = Some \<lparr>r = 1, g = 2, b = 3\<rparr>
 \<and> \<not> list_all isHexDigit (js ''1g2h3i'')"
proof -
  have h: "hexToRgb (js ''#1g2h3i'') = Some \<lparr>r = 1, g = 2, b = 3\<rparr>"
    by (simp add: hexToRgb_def js_def startsWith_def trim_def isWhiteSpace_def parseInt16_def
        substring_def isHexDigit_def hexValue_def hexDigitValue_def Let_def)
  have m: "map_of COLOR_MAP (js ''#1g2h3i'') = None"
    using COLOR_MAP_no_hash[of "js ''1g2h3i''"] by (simp add: js_def)
  have s: "startsWith (js ''#1g2h3i'') (js ''#'')" by (simp add: startsWith_def js_def)
  have n: "\<not> list_all isHexDigit (js ''1g2h3i'')" by (simp add: js_def isHexDigit_def)
  from h m s n show ?thesis by (simp add: getTrueColorRgb_def)
qed

section \<open>Properties of the default style\<close>

lemma defaultParts_skip:
  "defaultPart world variables m = Returns None \<Longrightarrow>
   defaultParts world variables (xs @ m # ys) = defaultParts world variables (xs @ ys)"
proof (induction xs)
  case Nil
  then show ?case
    by (cases "defaultParts world variables ys") (simp_all add: bind_def)
next
  case (Cons x xs)
  then show ?case by simp
qed

lemma defaultPart_empty_text:
  "moduleText world m variables = Returns [] \<Longrightarrow> defaultPart world variables m = Returns None"
  by (simp add: defaultPart_def bind_def Let_def)

lemma renderDefaultStyle_take:
  "renderDefaultStyle world \<lparr>modules = Some mods\<rparr> variables
   = bind (defaultParts world variables (take 5 mods)) (\<lambda>parts. Returns (join (js '' '') parts))"
  by (simp add: renderDefaultStyle_def Let_def min_def)

text \<open>
  C7. In default-style rendering a module whose acquired text (from the template or from
  the script) is the empty string is skipped, whatever its icon: its iteration pushes
  nothing, and the output is the output of the first five modules with that module
  taken out.
\<close>

theorem default_style_skips_empty_text:
  assumes "i < length mods" and "i < 5"
    and "moduleText world (mods ! i) variables = Returns []"
  shows "defaultPart world variables (mods ! i) = Returns None
       \<and> renderDefaultStyle world \<lparr>modules = Some mods\<rparr> variables
         = renderDefaultStyle world
             \<lparr>modules = Some (take i (take 5 mods) @ drop (Suc i) (take 5 mods))\<rparr> variables"
proof -
  define window where "window = take 5 mods"
  have skip: "defaultPart world variables (mods ! i) = Returns None"
    using assms(3) by (rule defaultPart_empty_text)
  have i: "i < length window" using assms by (simp add: window_def)
  have "window ! i = mods ! i" using assms by (simp add: window_def)
  with id_take_nth_drop[OF i]
  have w: "window = take i window @ (mods ! i) # drop (Suc i) window" by simp
  have "length (take i window @ drop (Suc i) window) \<le> 5"
    using i by (simp add: window_def)
  then have t: "take 5 (take i window @ drop (Suc i) window) = take i window @ drop (Suc i) window"
    by (rule take_all)
  have "defaultParts world variables window
      = defaultParts world variables (take i window @ drop (Suc i) window)"
    by (subst w) (rule defaultParts_skip[OF skip])
  then have "renderDefaultStyle world \<lparr>modules = Some mods\<rparr> variables
         = renderDefaultStyle world
             \<lparr>modules = Some (take i window @ drop (Suc i) window)\<rparr> variables"
    unfolding renderDefaultStyle_take t by (simp add: window_def)
  with skip show ?thesis by (simp add: window_def)
qed

theorem default_style_skips_empty_text_witness:
  "0 < length [gitBranchModule, plainModule ''b'' None] \<and> (0::nat) < 5
 \<and> moduleText quietWorld ([gitBranchModule, plainModule ''b'' None] ! 0) noVariables = Returns []
 \<and> truthy (icon ([gitBranchModule, plainModule ''b'' None] ! 0))
 \<and> renderDefaultStyle quietWorld \<lparr>modules = Some [gitBranchModule, plainModule ''b'' None]\<rparr>
       noVariables
   = renderDefaultStyle quietWorld \<lparr>modules = Some [plainModule ''b'' None]\<rparr> noVariables"
proof -
  have h1: "0 < length [gitBranchModule, plainModule ''b'' None]" by simp
  have h2: "(0::nat) < 5" by simp
  have h3: "moduleText quietWorld ([gitBranchModule, plainModule ''b'' None] ! 0) noVariables
            = Returns []"
    by (simp add: moduleText_def gitBranchModule_def replaceVariables.simps matchVariable_def
        startsWith_def js_def isWordChar_def noVariables_def Let_def)
  have h4: "truthy (icon ([gitBranchModule, plainModule ''b'' None] ! 0))"
    by (simp add: gitBranchModule_def)
  from default_style_skips_empty_text[OF h1 h2 h3] h1 h2 h3 h4 show ?thesis by simp
qed

text \<open>
  The default style reads the first five modules only.
\<close>

lemma renderDefaultStyle_first_five:
  "renderDefaultStyle world \<lparr>modules = Some mods\<rparr> variables
   = renderDefaultStyle world \<lparr>modules = Some (take 5 mods)\<rparr> variables"
  by (simp add: renderDefaultStyle_def Let_def min_def)

section \<open>Properties of the powerline style\<close>

lemma powerlineSegments_done:
  "\<not> i < min (length mods) 5 \<Longrightarrow> powerlineSegments world variables mods i = Returns []"
  by (subst powerlineSegments.simps) (simp only: if_False)

lemma powerlineSegments_unfold:
  "i < min (length mods) 5 \<Longrightarrow>
   powerlineSegments world variables mods i =
     bind (moduleText world (mods ! i) variables) (\<lambda>txt.
       if displayTextOf (mods ! i) txt = [] \<or> txt = []
       then powerlineSegments world variables mods (Suc i)
       else bind (powerlineSegments world variables mods (Suc i)) (\<lambda>segments.
              Returns (segment (displayTextOf (mods ! i) txt) (colorNameOf (mods ! i))
                         (actualBackgroundOf (mods ! i)) (nextBackgroundAt mods i) # segments)))"
  by (subst powerlineSegments.simps) (simp add: Let_def cong del: if_weak_cong)

lemma segment_unresolved:
  "getTrueColorRgb bgColor = None \<Longrightarrow>
   segment txt textFg bgColor nextBgColor =
     bgEscape \<lparr>r = 33, g = 150, b = 243\<rparr> @ fgEscape \<lparr>r = 255, g = 255, b = 255\<rparr>
     @ js '' '' @ txt @ js '' '' @ reset"
  by (simp add: segment_def Let_def)

lemma segment_last:
  "getTrueColorRgb bgColor = Some bgRgb \<Longrightarrow> getTrueColorRgb textFg = Some fgRgb \<Longrightarrow>
   segment txt textFg bgColor None =
     bgEscape bgRgb @ fgEscape fgRgb @ js '' '' @ txt @ js '' '' @ reset"
  by (simp add: segment_def Let_def)

lemma segment_next:
  "getTrueColorRgb bgColor = Some bgRgb \<Longrightarrow> getTrueColorRgb nextBg = Some nextRgb \<Longrightarrow>
   segment txt textFg bgColor (Some nextBg) =
     segment txt textFg bgColor None @ fgEscape bgRgb @ bgEscape nextRgb @ SEP_RIGHT @ reset"
  by (simp add: segment_def Let_def)

lemma powerlineSegments_step:
  assumes "i < min (length mods) 5"
    and "moduleText world (mods ! i) variables = Returns txt"
    and "txt \<noteq> []"
  shows "powerlineSegments world variables mods i =
         bind (powerlineSegments world variables mods (Suc i)) (\<lambda>segments.
           Returns (segment (displayTextOf (mods ! i) txt) (colorNameOf (mods ! i))
                      (actualBackgroundOf (mods ! i)) (nextBackgroundAt mods i) # segments))"
proof -
  have "displayTextOf (mods ! i) txt \<noteq> []"
    using assms(3) by (simp add: displayTextOf_def Let_def)
  with assms show ?thesis
    by (subst powerlineSegments.simps) (simp add: bind_def Let_def)
qed

lemma outputs_without_glyph:
  "0xE0B0 \<notin> set (bgEscape \<lparr>r = 33, g = 150, b = 243\<rparr>)"
  "0xE0B0 \<notin> set (fgEscape \<lparr>r = 255, g = 255, b = 255\<rparr>)"
  "0xE0B0 \<notin> set (bgEscape \<lparr>r = 0, g = 0, b = 128\<rparr>)"
  "0xE0B0 \<notin> set (fgEscape \<lparr>r = 192, g = 192, b = 192\<rparr>)"
  "0xE0B0 \<notin> set (bgEscape \<lparr>r = 128, g = 0, b = 0\<rparr>)"
  "0xE0B0 \<notin> set (bgEscape \<lparr>r = 0, g = 0, b = 255\<rparr>)"
  "0xE0B0 \<notin> set (js '' a '')" "0xE0B0 \<notin> set (js '' b '')" "0xE0B0 \<notin> set reset"
  by (simp_all add: bgEscape_def fgEscape_def reset_def ESC_def show_int_def js_def)

text \<open>
  C3, as the source has it. The claim says that every surviving segment with a lookahead
  target is followed by a separator, and that the separator turns black where there is
  no next module or no next background. In the first theme the first module names a
  background that does not resolve (\<open>bg_orange\<close>) and the second one has \<open>bg_blue\<close>: the
  first segment falls back to the default blue body and no separator follows it. In the
  second theme the module after the red one declares no background: no separator
  follows the red segment either. Neither output contains the glyph U+E0B0.
\<close>

theorem powerline_separator_missing:
  "renderPowerlineStyle quietWorld \<lparr>modules = Some unresolvedThenBlue\<rparr> noVariables
     = Returns unresolvedThenBlueOutput
 \<and> 0xE0B0 \<notin> set unresolvedThenBlueOutput
 \<and> renderPowerlineStyle quietWorld \<lparr>modules = Some redThenPlain\<rparr> noVariables
     = Returns redThenPlainOutput
 \<and> 0xE0B0 \<notin> set redThenPlainOutput"
proof -
  have sp: "js '' a '' = js '' '' @ js ''a'' @ js '' ''" "js '' b '' = js '' '' @ js ''b'' @ js '' ''"
    by (simp_all add: js_def)
  have "renderPowerlineStyle quietWorld \<lparr>modules = Some unresolvedThenBlue\<rparr> noVariables
     = Returns unresolvedThenBlueOutput"
    by (simp add: renderPowerlineStyle_def unresolvedThenBlue_def unresolvedThenBlueOutput_def
        powerlineSegments_unfold powerlineSegments_done nextBackgroundAt_def segment_unresolved
        segment_last colour_values sp)
  moreover have "renderPowerlineStyle quietWorld \<lparr>modules = Some redThenPlain\<rparr> noVariables
     = Returns redThenPlainOutput"
    by (simp add: renderPowerlineStyle_def redThenPlain_def redThenPlainOutput_def
        powerlineSegments_unfold powerlineSegments_done nextBackgroundAt_def segment_last
        colour_values sp)
  moreover have "0xE0B0 \<notin> set unresolvedThenBlueOutput"
    by (simp add: unresolvedThenBlueOutput_def outputs_without_glyph)
  moreover have "0xE0B0 \<notin> set redThenPlainOutput"
    by (simp add: redThenPlainOutput_def outputs_without_glyph)
  ultimately show ?thesis by simp
qed

text \<open>
  C3, amended. In powerline rendering, take a module that the loop visits, other than the
  fifth module of a theme with more than five modules, whose text is not empty and whose
  own background (or the default \<open>bg_bright_blue\<close>) resolves to an RGB triple, in a theme
  whose colour names are none of the inherited names. Its segment is the body on that
  background, followed by a separator exactly when the module one position ahead in the
  original module list is among the modules the loop visits and declares a non-empty
  background. The separator's foreground is the current segment's background RGB; its
  background is the RGB of the next module's background, or black (0, 0, 0) when that
  background does not resolve.
\<close>

theorem powerline_separator:
  assumes visited: "i < min (length mods) 5"
    and capped: "Suc i < 5 \<or> length mods \<le> 5"
    and own: "list_all ownColourNames mods"
    and survives: "moduleText world (mods ! i) variables = Returns txt" "txt \<noteq> []"
    and resolves: "getTrueColorRgb (actualBackgroundOf (mods ! i)) = Some bgRgb"
  shows "powerlineSegments world variables mods i =
         bind (powerlineSegments world variables mods (Suc i)) (\<lambda>segments.
           Returns
             ((bgEscape bgRgb
               @ fgEscape (case getTrueColorRgb (colorNameOf (mods ! i)) of
                             Some fgRgb \<Rightarrow> fgRgb
                           | None \<Rightarrow> \<lparr>r = 255, g = 255, b = 255\<rparr>)
               @ js '' '' @ displayTextOf (mods ! i) txt @ js '' '' @ reset
               @ (if Suc i < min (length mods) 5 \<and> truthy (background (mods ! Suc i))
                  then fgEscape bgRgb
                       @ bgEscape (case getTrueColorRgb (orEmpty (background (mods ! Suc i))) of
                                     Some nextBgRgb \<Rightarrow> nextBgRgb
                                   | None \<Rightarrow> \<lparr>r = 0, g = 0, b = 0\<rparr>)
                       @ SEP_RIGHT @ reset
                  else []))
              # segments))"
proof -
  have bound: "Suc i < length mods \<longleftrightarrow> Suc i < min (length mods) 5"
    using visited capped by auto
  have nb: "nextBackgroundAt mods i =
      (if Suc i < min (length mods) 5 \<and> truthy (background (mods ! Suc i))
       then Some (orEmpty (background (mods ! Suc i))) else None)"
    unfolding bound[symmetric] using visited
    by (auto simp: nextBackgroundAt_def Let_def truthy_def orEmpty_def split: option.splits)
  have "segment (displayTextOf (mods ! i) txt) (colorNameOf (mods ! i))
                      (actualBackgroundOf (mods ! i)) (nextBackgroundAt mods i)
      = bgEscape bgRgb
               @ fgEscape (case getTrueColorRgb (colorNameOf (mods ! i)) of
                             Some fgRgb \<Rightarrow> fgRgb
                           | None \<Rightarrow> \<lparr>r = 255, g = 255, b = 255\<rparr>)
               @ js '' '' @ displayTextOf (mods ! i) txt @ js '' '' @ reset
               @ (if Suc i < min (length mods) 5 \<and> truthy (background (mods ! Suc i))
                  then fgEscape bgRgb
                       @ bgEscape (case getTrueColorRgb (orEmpty (background (mods ! Suc i))) of
                                     Some nextBgRgb \<Rightarrow> nextBgRgb
                                   | None \<Rightarrow> \<lparr>r = 0, g = 0, b = 0\<rparr>)
                       @ SEP_RIGHT @ reset
                  else [])"
    unfolding nb using resolves
    by (simp add: segment_def Let_def split: option.splits)
  with powerlineSegments_step[OF visited survives] show ?thesis by simp
qed

theorem powerline_separator_witness:
  "0 < min (length redThenBlue) 5
 \<and> (Suc 0 < 5 \<or> length redThenBlue \<le> 5)
 \<and> list_all ownColourNames redThenBlue
 \<and> moduleText quietWorld (redThenBlue ! 0) noVariables = Returns (js ''a'') \<and> js ''a'' \<noteq> []
 \<and> getTrueColorRgb (actualBackgroundOf (redThenBlue ! 0)) = Some \<lparr>r = 128, g = 0, b = 0\<rparr>
 \<and> Suc 0 < min (length redThenBlue) 5 \<and> truthy (background (redThenBlue ! Suc 0))
 \<and> powerlineSegments quietWorld noVariables redThenBlue 0 =
     bind (powerlineSegments quietWorld noVariables redThenBlue (Suc 0)) (\<lambda>segments.
       Returns ((bgEscape \<lparr>r = 128, g = 0, b = 0\<rparr> @ fgEscape \<lparr>r = 192, g = 192, b = 192\<rparr>
                 @ js '' a '' @ reset
                 @ fgEscape \<lparr>r = 128, g = 0, b = 0\<rparr> @ bgEscape \<lparr>r = 0, g = 0, b = 128\<rparr>
                 @ SEP_RIGHT @ reset) # segments))"
proof -
  have h1: "0 < min (length redThenBlue) 5" by (simp add: redThenBlue_def)
  have hc: "Suc 0 < 5 \<or> length redThenBlue \<le> 5" by simp
  have ho: "list_all ownColourNames redThenBlue"
    by (simp add: redThenBlue_def ownColourNames_def inheritedNames_def js_def)
  have h2: "moduleText quietWorld (redThenBlue ! 0) noVariables = Returns (js ''a'')"
    by (simp add: redThenBlue_def)
  have h3: "js ''a'' \<noteq> []" by simp
  have h4: "getTrueColorRgb (actualBackgroundOf (redThenBlue ! 0)) = Some \<lparr>r = 128, g = 0, b = 0\<rparr>"
    by (simp add: redThenBlue_def colour_values)
  have h5: "Suc 0 < min (length redThenBlue) 5 \<and> truthy (background (redThenBlue ! Suc 0))"
    by (simp add: redThenBlue_def)
  have sp: "js '' a '' = js '' '' @ js ''a'' @ js '' ''" by (simp add: js_def)
  from powerline_separator[OF h1 hc ho h2 h3 h4] h1 hc ho h2 h3 h4 h5 show ?thesis
    by (simp add: redThenBlue_def colour_values sp)
qed

text \<open>
  The powerline loop pushes at most five segments.
\<close>

lemma powerlineSegments_at_most:
  "powerlineSegments world variables mods i = Returns segments \<Longrightarrow> length segments \<le> 5 - i"
proof (induction "5 - i" arbitrary: i segments)
  case 0
  then have "\<not> i < min (length mods) 5" by simp
  with 0 show ?case by (simp add: powerlineSegments_done)
next
  case (Suc n)
  show ?case
  proof (cases "i < min (length mods) 5")
    case False
    with Suc.prems show ?thesis by (simp add: powerlineSegments_done)
  next
    case True
    have IH: "length segs \<le> 5 - Suc i"
      if "powerlineSegments world variables mods (Suc i) = Returns segs" for segs
      using Suc.hyps(1)[of "Suc i" segs] Suc.hyps(2) that by simp
    from Suc.prems True IH show ?thesis
      by (cases "moduleText world (mods ! i) variables";
          cases "powerlineSegments world variables mods (Suc i)")
         (auto simp: powerlineSegments_unfold split: if_splits)
  qed
qed

lemma renderPowerlineStyle_at_most_five:
  "powerlineSegments world variables mods 0 = Returns segments \<Longrightarrow> length segments \<le> 5"
  using powerlineSegments_at_most[of world variables mods 0 segments] by simp

text \<open>
  C8. The claim says that both renderers ignore the modules after the fifth. The loop of
  \<open>renderPowerlineStyle\<close> stops after five modules, but its lookahead is bounded by
  \<open>modules.length - 1\<close>, so at the fifth module it reads the background of the sixth.
  For a theme of six modules the output is the output for its first five modules
  followed by a separator into the sixth module's background (\<open>bg_cyan\<close>), a module
  that is never rendered.
\<close>

theorem powerline_reads_sixth_module:
  "renderPowerlineStyle quietWorld \<lparr>modules = Some (take 5 sixModules)\<rparr> noVariables
   = Returns (segment (js ''a'') (js ''white'') (js ''bg_red'') (Some (js ''bg_green''))
            @ segment (js ''b'') (js ''white'') (js ''bg_green'') (Some (js ''bg_yellow''))
            @ segment (js ''c'') (js ''white'') (js ''bg_yellow'') (Some (js ''bg_blue''))
            @ segment (js ''d'') (js ''white'') (js ''bg_blue'') (Some (js ''bg_magenta''))
            @ segment (js ''e'') (js ''white'') (js ''bg_magenta'') None)
 \<and> renderPowerlineStyle quietWorld \<lparr>modules = Some sixModules\<rparr> noVariables
   = Returns (segment (js ''a'') (js ''white'') (js ''bg_red'') (Some (js ''bg_green''))
            @ segment (js ''b'') (js ''white'') (js ''bg_green'') (Some (js ''bg_yellow''))
            @ segment (js ''c'') (js ''white'') (js ''bg_yellow'') (Some (js ''bg_blue''))
            @ segment (js ''d'') (js ''white'') (js ''bg_blue'') (Some (js ''bg_magenta''))
            @ segment (js ''e'') (js ''white'') (js ''bg_magenta'') None
            @ fgEscape \<lparr>r = 128, g = 0, b = 128\<rparr> @ bgEscape \<lparr>r = 0, g = 128, b = 128\<rparr>
            @ SEP_RIGHT @ reset)
 \<and> renderPowerlineStyle quietWorld \<lparr>modules = Some sixModules\<rparr> noVariables
   \<noteq> renderPowerlineStyle quietWorld \<lparr>modules = Some (take 5 sixModules)\<rparr> noVariables"
proof -
  have five: "renderPowerlineStyle quietWorld \<lparr>modules = Some (take 5 sixModules)\<rparr> noVariables
   = Returns (segment (js ''a'') (js ''white'') (js ''bg_red'') (Some (js ''bg_green''))
            @ segment (js ''b'') (js ''white'') (js ''bg_green'') (Some (js ''bg_yellow''))
            @ segment (js ''c'') (js ''white'') (js ''bg_yellow'') (Some (js ''bg_blue''))
            @ segment (js ''d'') (js ''white'') (js ''bg_blue'') (Some (js ''bg_magenta''))
            @ segment (js ''e'') (js ''white'') (js ''bg_magenta'') None)"
    by (simp add: renderPowerlineStyle_def sixModules_def powerlineSegments_unfold
        powerlineSegments_done nextBackgroundAt_def)
  have six: "renderPowerlineStyle quietWorld \<lparr>modules = Some sixModules\<rparr> noVariables
   = Returns (segment (js ''a'') (js ''white'') (js ''bg_red'') (Some (js ''bg_green''))
            @ segment (js ''b'') (js ''white'') (js ''bg_green'') (Some (js ''bg_yellow''))
            @ segment (js ''c'') (js ''white'') (js ''bg_yellow'') (Some (js ''bg_blue''))
            @ segment (js ''d'') (js ''white'') (js ''bg_blue'') (Some (js ''bg_magenta''))
            @ segment (js ''e'') (js ''white'') (js ''bg_magenta'') None
            @ fgEscape \<lparr>r = 128, g = 0, b = 128\<rparr> @ bgEscape \<lparr>r = 0, g = 128, b = 128\<rparr>
            @ SEP_RIGHT @ reset)"
    by (simp add: renderPowerlineStyle_def sixModules_def powerlineSegments_unfold
        powerlineSegments_done nextBackgroundAt_def segment_next[where nextBg = "js ''bg_cyan''"]
        colour_values)
  have "fgEscape \<lparr>r = 128, g = 0, b = 128\<rparr> @ bgEscape \<lparr>r = 0, g = 128, b = 128\<rparr>
            @ SEP_RIGHT @ reset \<noteq> []"
    by (simp add: fgEscape_def)
  with five six show ?thesis by simp
qed

section \<open>Script modules without a path\<close>











section \<open>Failures of the status line\<close>

lemma statusLineBody_no_workspace:
  "workspace input = None \<Longrightarrow> statusLineBody world input = Throws TypeError"
  by (simp add: statusLineBody_def Let_def)

lemma statusLineBody_no_transcript_path:
  "workspace input = Some ws \<Longrightarrow> transcript_path input = None \<Longrightarrow>
   statusLineBody world input = Throws TypeError"
  by (simp add: statusLineBody_def Let_def)

lemma statusLineBody_unreadable:
  "workspace input = Some ws \<Longrightarrow> transcript_path input = Some p \<Longrightarrow> fs_readFile world p = None \<Longrightarrow>
   statusLineBody world input = Throws IOError"
  by (simp add: statusLineBody_def Let_def)

text \<open>
  C6. \<open>parseStatusLineData\<close> never throws. Whenever the body of its \<open>try\<close> block throws,
  the result is the empty string; so it is when the input has no \<open>workspace\<close>, when it
  has no \<open>transcript_path\<close>, and when the transcript cannot be read.
\<close>

theorem parseStatusLineData_never_throws:
  "parseStatusLineData world input \<noteq> Throws e
 \<and> (statusLineBody world input = Throws e \<longrightarrow> parseStatusLineData world input = Returns [])
 \<and> (workspace input = None \<longrightarrow> parseStatusLineData world input = Returns [])
 \<and> (workspace input \<noteq> None \<and> transcript_path input = None \<longrightarrow>
      parseStatusLineData world input = Returns [])
 \<and> (workspace input \<noteq> None
      \<and> (\<exists>p. transcript_path input = Some p \<and> fs_readFile world p = None) \<longrightarrow>
      parseStatusLineData world input = Returns [])"
proof (intro conjI impI)
  show "parseStatusLineData world input \<noteq> Throws e"
    by (cases "statusLineBody world input") (simp_all add: parseStatusLineData_def)
  show "parseStatusLineData world input = Returns []" if "statusLineBody world input = Throws e"
    using that by (simp add: parseStatusLineData_def)
  show "parseStatusLineData world input = Returns []" if "workspace input = None"
    using statusLineBody_no_workspace[OF that] by (simp add: parseStatusLineData_def)
  show "parseStatusLineData world input = Returns []"
    if "workspace input \<noteq> None \<and> transcript_path input = None"
    using that statusLineBody_no_transcript_path[of input _ world]
    by (auto simp: parseStatusLineData_def)
  show "parseStatusLineData world input = Returns []"
    if "workspace input \<noteq> None \<and> (\<exists>p. transcript_path input = Some p \<and> fs_readFile world p = None)"
    using that statusLineBody_unreadable[of input _ _ world]
    by (auto simp: parseStatusLineData_def)
qed

theorem parseStatusLineData_never_throws_witness:
  "statusLineBody quietWorld sampleInput = Throws IOError
 \<and> workspace sampleInput \<noteq> None
 \<and> (\<exists>p. transcript_path sampleInput = Some p \<and> fs_readFile quietWorld p = None)
 \<and> parseStatusLineData quietWorld sampleInput = Returns []
 \<and> workspace (sampleInput\<lparr>workspace := None\<rparr>) = None
 \<and> parseStatusLineData quietWorld (sampleInput\<lparr>workspace := None\<rparr>) = Returns []
 \<and> workspace (sampleInput\<lparr>transcript_path := None\<rparr>) \<noteq> None
 \<and> transcript_path (sampleInput\<lparr>transcript_path := None\<rparr>) = None
 \<and> parseStatusLineData quietWorld (sampleInput\<lparr>transcript_path := None\<rparr>) = Returns []"
proof -
  have h1: "workspace sampleInput \<noteq> None" by (simp add: sampleInput_def)
  have h2: "\<exists>p. transcript_path sampleInput = Some p \<and> fs_readFile quietWorld p = None"
    by (simp add: sampleInput_def quietWorld_def)
  have h3: "statusLineBody quietWorld sampleInput = Throws IOError"
    by (rule statusLineBody_unreadable[where p = "js ''/tmp/transcript.jsonl''"])
       (simp_all add: sampleInput_def quietWorld_def)
  have h4: "workspace (sampleInput\<lparr>workspace := None\<rparr>) = None" by simp
  have h5: "workspace (sampleInput\<lparr>transcript_path := None\<rparr>) \<noteq> None
          \<and> transcript_path (sampleInput\<lparr>transcript_path := None\<rparr>) = None"
    by (simp add: sampleInput_def)
  from parseStatusLineData_never_throws[of quietWorld sampleInput IOError]
       parseStatusLineData_never_throws[of quietWorld "sampleInput\<lparr>workspace := None\<rparr>" TypeError]
       parseStatusLineData_never_throws[of quietWorld "sampleInput\<lparr>transcript_path := None\<rparr>" TypeError]
       h1 h2 h3 h4 h5
  show ?thesis by blast
qed

end
